theory Spec2Isabelle
  imports Main "HOL-Library.AList"
begin

section \<open>Python strings\<close>

text \<open>
  The string methods the storage class calls, on \<open>string\<close> (ASCII text).
  \<open>str.find\<close> and \<open>str.rfind\<close> return \<open>-1\<close> when the character is absent, and a
  slice \<open>s[:i]\<close> with negative \<open>i\<close> counts from the end, so both are modelled on \<open>int\<close>.
\<close>

type_synonym bytes = string

definition endswith :: "string \<Rightarrow> char \<Rightarrow> bool" where
  "endswith s c = (case rev s of [] \<Rightarrow> False | x # _ \<Rightarrow> x = c)"

definition find_str :: "string \<Rightarrow> char \<Rightarrow> int" where
  "find_str s c =
     (if c \<in> set s then int (length (takeWhile (\<lambda>x. x \<noteq> c) s)) else - 1)"

definition rfind :: "string \<Rightarrow> char \<Rightarrow> int" where
  "rfind s c =
     (if c \<in> set s
      then int (length s) - 1 - int (length (takeWhile (\<lambda>x. x \<noteq> c) (rev s)))
      else - 1)"

definition slice_to :: "string \<Rightarrow> int \<Rightarrow> string" where
  "slice_to s i = take (nat (if i < 0 then int (length s) + i else i)) s"

definition lstrip :: "char \<Rightarrow> string \<Rightarrow> string" where
  "lstrip c s = dropWhile (\<lambda>x. x = c) s"

definition startswith :: "string \<Rightarrow> string \<Rightarrow> bool" where
  "startswith s p = (take (length p) s = p)"

definition ascii_lowercase :: string where
  "ascii_lowercase = ''abcdefghijklmnopqrstuvwxyz''"

definition ascii_uppercase :: string where
  "ascii_uppercase = ''ABCDEFGHIJKLMNOPQRSTUVWXYZ''"

definition digits :: string where
  "digits = ''0123456789''"

definition upper_char :: "char \<Rightarrow> char" where
  "upper_char c =
     (case map_of (zip ascii_lowercase ascii_uppercase) c of Some u \<Rightarrow> u | None \<Rightarrow> c)"

definition lower_char :: "char \<Rightarrow> char" where
  "lower_char c =
     (case map_of (zip ascii_uppercase ascii_lowercase) c of Some l \<Rightarrow> l | None \<Rightarrow> c)"

definition upper :: "string \<Rightarrow> string" where
  "upper s = map upper_char s"

definition lower :: "string \<Rightarrow> string" where
  "lower s = map lower_char s"

section \<open>Errors\<close>

text \<open>
  The exceptions that the storage class raises, catches or lets through. The class raises
  \<open>RuntimeError\<close> (with a message) for a foreign scheme and for a missing formatter, and
  \<open>NoRepositroyAtRoot\<close> (the name as the persistence framework spells it) for a missing
  repository. \<open>ParamValidationError\<close> and \<open>ClientError\<close> come from the S3 client,
  \<open>ValueError\<close> from the URL parser, \<open>IndexError\<close> from indexing an empty list,
  \<open>AttributeError\<close> from reading a field of a value that has none, and \<open>YAMLError\<close> and
  \<open>UnpicklingError\<close> from the two codecs when they cannot decode.
\<close>

datatype error =
    RuntimeError string
  | NoRepositroyAtRoot string
  | ParamValidationError
  | ClientError
  | ValueError
  | IndexError
  | AttributeError
  | YAMLError
  | UnpicklingError

section \<open>URL parsing\<close>

text \<open>
  \<open>urllib.parse.urlparse\<close> as the constructor uses it: the scheme, the network location and
  the path of the result. The model follows the general path of \<open>urlsplit\<close> in the CPython
  release the package was written for (3.6): the text before the first colon is a scheme
  when it is made of scheme characters and what follows the colon is not a port number; a
  remainder that starts with two slashes gives the network location, up to the first of
  \<open>/ ? #\<close>; fragment and query are cut off the path. The scheme is lower-cased there.
  (The parser's shortcut for the scheme \<open>http\<close> is left out; it gives the scheme \<open>http\<close>,
  which the constructor refuses like every scheme but \<open>s3\<close>.) A network location with
  one square bracket and not the other raises \<open>ValueError\<close>.
\<close>

record ParseResult =
  scheme :: string
  netloc :: string
  path :: string
  query :: string
  fragment :: string

definition scheme_chars :: string where
  "scheme_chars = ascii_lowercase @ ascii_uppercase @ digits @ ''+-.''"

definition splitnetloc :: "string \<Rightarrow> string \<times> string" where
  "splitnetloc url =
     (let rest = drop 2 url;
          dom = takeWhile (\<lambda>c. c \<notin> set ''/?#'') rest
      in (dom, drop (length dom) rest))"

definition split1 :: "char \<Rightarrow> string \<Rightarrow> string \<times> string" where
  "split1 c s =
     (let a = takeWhile (\<lambda>x. x \<noteq> c) s in (a, drop (length a + 1) s))"

definition urlparse :: "string \<Rightarrow> error + ParseResult" where
  "urlparse url0 =
     (let i = find_str url0 CHR '':'';
          pre = slice_to url0 i;
          rest = drop (nat (i + 1)) url0;
          is_scheme = (i > 0 \<and> list_all (\<lambda>c. c \<in> set scheme_chars) pre \<and>
                       (rest = [] \<or> list_ex (\<lambda>c. c \<notin> set digits) rest));
          sch = (if is_scheme then lower pre else []);
          url = (if is_scheme then rest else url0);
          (nl, url1) = (if take 2 url = ''//'' then splitnetloc url else ([], url))
      in if (CHR ''['' \<in> set nl \<and> CHR '']'' \<notin> set nl) \<or>
            (CHR '']'' \<in> set nl \<and> CHR ''['' \<notin> set nl)
         then Inl ValueError
         else
           (let (url2, frag) = split1 CHR ''#'' url1;
                (url3, qry) = split1 CHR ''?'' url2
            in Inr \<lparr>scheme = sch, netloc = nl, path = url3, query = qry, fragment = frag\<rparr>))"

section \<open>The object store\<close>

text \<open>
  The S3 service as the class reaches it through boto3: named buckets, each holding objects
  (a body per key). \<open>calls\<close> records every request that is sent to the service, in
  order, so that "no call is made" can be stated.

  The client checks a bucket name before it sends anything: a name that is not 1 to 255
  characters out of letters, digits, dot, hyphen and underscore is refused with
  \<open>ParamValidationError\<close>, and no request goes out. The constructor's control flow rests
  on that exception, so \<open>head_bucket\<close> and \<open>create_bucket\<close> model the check. The service
  answers a request about a missing bucket or key with \<open>ClientError\<close>. The service has
  a rule of its own for the name of a bucket: a request to create one whose name is
  shorter than 3 or longer than 63 characters is answered with \<open>ClientError\<close> and no
  bucket is made. Creating a bucket
  that the caller already owns succeeds and leaves it as it is (the behaviour of the
  default region, the only one where a request without a location constraint is served).
  The calls on objects go through the bucket handle of a storage; they are modelled on the
  buckets of the store alone. A listing returns the keys in the order of the model's
  list; \<open>exists\<close> does not depend on the order.
\<close>

type_synonym objects = "(string \<times> bytes) list"

datatype api_call =
    HeadBucket string
  | CreateBucket string
  | PutObject string string
  | DownloadFile string string
  | CopyObject string string string string
  | ListObjects string string

record s3 =
  buckets :: "string \<rightharpoonup> objects"
  calls :: "api_call list"

definition request :: "api_call \<Rightarrow> s3 \<Rightarrow> s3" where
  "request c s = s\<lparr>calls := calls s @ [c]\<rparr>"

definition bucket_chars :: string where
  "bucket_chars = ascii_lowercase @ ascii_uppercase @ digits @ ''.-_''"

definition VALID_BUCKET :: "string \<Rightarrow> bool" where
  "VALID_BUCKET name =
     (1 \<le> length name \<and> length name \<le> 255 \<and> list_all (\<lambda>c. c \<in> set bucket_chars) name)"

definition head_bucket :: "string \<Rightarrow> s3 \<Rightarrow> (error + unit) \<times> s3" where
  "head_bucket name s =
     (if VALID_BUCKET name
      then (case buckets s name of
              None \<Rightarrow> (Inl ClientError, request (HeadBucket name) s)
            | Some _ \<Rightarrow> (Inr (), request (HeadBucket name) s))
      else (Inl ParamValidationError, s))"

definition service_accepts :: "string \<Rightarrow> bool" where
  "service_accepts name = (3 \<le> length name \<and> length name \<le> 63)"

definition create_bucket :: "string \<Rightarrow> s3 \<Rightarrow> (error + unit) \<times> s3" where
  "create_bucket name s =
     (if VALID_BUCKET name
      then (if service_accepts name
            then (case buckets s name of
                    None \<Rightarrow>
                      (Inr (), request (CreateBucket name)
                                 (s\<lparr>buckets := (buckets s)(name \<mapsto> [])\<rparr>))
                  | Some _ \<Rightarrow> (Inr (), request (CreateBucket name) s))
            else (Inl ClientError, request (CreateBucket name) s))
      else (Inl ParamValidationError, s))"

definition put_object :: "string \<Rightarrow> string \<Rightarrow> bytes \<Rightarrow> s3 \<Rightarrow> (error + unit) \<times> s3" where
  "put_object b key body s =
     (case buckets s b of
        None \<Rightarrow> (Inl ClientError, request (PutObject b key) s)
      | Some objs \<Rightarrow>
          (Inr (), request (PutObject b key)
                     (s\<lparr>buckets := (buckets s)(b \<mapsto> AList.update key body objs)\<rparr>)))"

definition download_file :: "string \<Rightarrow> string \<Rightarrow> s3 \<Rightarrow> (error + bytes) \<times> s3" where
  "download_file b key s =
     (case buckets s b of
        None \<Rightarrow> (Inl ClientError, request (DownloadFile b key) s)
      | Some objs \<Rightarrow>
          (case map_of objs key of
             None \<Rightarrow> (Inl ClientError, request (DownloadFile b key) s)
           | Some body \<Rightarrow> (Inr body, request (DownloadFile b key) s)))"

definition bucket_copy ::
    "string \<Rightarrow> string \<Rightarrow> string \<Rightarrow> string \<Rightarrow> s3 \<Rightarrow> (error + unit) \<times> s3" where
  "bucket_copy srcBucket srcKey b key s =
     (case buckets s srcBucket of
        None \<Rightarrow> (Inl ClientError, request (CopyObject srcBucket srcKey b key) s)
      | Some src \<Rightarrow>
          (case map_of src srcKey of
             None \<Rightarrow> (Inl ClientError, request (CopyObject srcBucket srcKey b key) s)
           | Some body \<Rightarrow>
               (case buckets s b of
                  None \<Rightarrow> (Inl ClientError, request (CopyObject srcBucket srcKey b key) s)
                | Some objs \<Rightarrow>
                    (Inr (), request (CopyObject srcBucket srcKey b key)
                               (s\<lparr>buckets := (buckets s)(b \<mapsto> AList.update key body objs)\<rparr>)))))"

definition objects_filter :: "string \<Rightarrow> string \<Rightarrow> s3 \<Rightarrow> (error + string list) \<times> s3" where
  "objects_filter b prefix s =
     (case buckets s b of
        None \<Rightarrow> (Inl ClientError, request (ListObjects b prefix) s)
      | Some objs \<Rightarrow>
          (Inr (filter (\<lambda>k. startswith k prefix) (map fst objs)),
           request (ListObjects b prefix) s))"

section \<open>Values, locations and formatters\<close>

text \<open>
  The Python values that pass through the storage: a repository configuration (its root,
  its mapper, and the rest of its content as one opaque field), the test suite's
  \<open>MyTestObject\<close>, lists, strings and \<open>None\<close>. \<open>type_of\<close> is Python's \<open>type(obj)\<close>.
\<close>

record RepositoryCfg =
  root :: string
  mapper :: string
  mapperArgs :: string

datatype pyval =
    PyNone
  | PyStr string
  | PyList "pyval list"
  | Cfg RepositoryCfg
  | MyTestObject pyval

datatype pytype = NoneType | StrType | ListType | RepositoryCfgType | MyTestObjectType

fun type_of :: "pyval \<Rightarrow> pytype" where
  "type_of PyNone = NoneType"
| "type_of (PyStr _) = StrType"
| "type_of (PyList _) = ListType"
| "type_of (Cfg _) = RepositoryCfgType"
| "type_of (MyTestObject _) = MyTestObjectType"

fun getattr_mapper :: "pyval \<Rightarrow> error + pyval" where
  "getattr_mapper (Cfg c) = Inr (PyStr (mapper c))"
| "getattr_mapper _ = Inl AttributeError"

text \<open>
  A \<open>ButlerLocation\<close> with the two fields the storage reads: the declared Python type
  (\<open>None\<close> when the caller passes \<open>pythonType=None\<close>) and the list of locations, which
  the framework turns into a list at construction (\<open>locationList=None\<close> gives \<open>[]\<close>).
\<close>

record ButlerLocation =
  pythonType :: "pytype option"
  locationList :: "string list"

definition getLocations :: "ButlerLocation \<Rightarrow> string list" where
  "getLocations butlerLocation = locationList butlerLocation"

definition getPythonType :: "ButlerLocation \<Rightarrow> pytype option" where
  "getPythonType butlerLocation = pythonType butlerLocation"

text \<open>
  A formatter receives the bucket handle (a boto3 \<open>Bucket\<close>, identified by its name), the
  location and, for a writer, the object. The registry keeps readers and writers by type.
  A reader returns a Python value. What a writer returns is dropped by \<open>write\<close>, and the
  writers of the package and of its tests return \<open>None\<close>: a writer is modelled with no
  result but its exception and the store it leaves.
\<close>

type_synonym reader = "string \<Rightarrow> ButlerLocation \<Rightarrow> s3 \<Rightarrow> (error + pyval) \<times> s3"
type_synonym writer = "string \<Rightarrow> ButlerLocation \<Rightarrow> pyval \<Rightarrow> s3 \<Rightarrow> (error + unit) \<times> s3"

record formatters =
  readFormatters :: "pytype \<rightharpoonup> reader"
  writeFormatters :: "pytype \<rightharpoonup> writer"

definition getReadFormatter :: "formatters \<Rightarrow> pytype option \<Rightarrow> reader option" where
  "getReadFormatter reg objType =
     (case objType of None \<Rightarrow> None | Some t \<Rightarrow> readFormatters reg t)"

definition getWriteFormatter :: "formatters \<Rightarrow> pytype \<Rightarrow> writer option" where
  "getWriteFormatter reg objType = writeFormatters reg objType"

subsection \<open>The formatter of the repository configuration\<close>

text \<open>
  \<open>fmtRepositoryCfg.py\<close>. The YAML codec is outside the package: \<open>yaml_dump\<close> and
  \<open>yaml_load\<close> are parameters, and \<open>yaml_load\<close> gives \<open>None\<close> where the codec raises.
  Both functions ignore the location and use the fixed key.
\<close>

definition remoteCfgName :: string where
  "remoteCfgName = ''repositoryCfg.yaml''"

definition writeRepositoryCfg :: "(pyval \<Rightarrow> bytes) \<Rightarrow> writer" where
  "writeRepositoryCfg yaml_dump b butlerLocation obj s =
     put_object b remoteCfgName (yaml_dump obj) s"

definition readRepositoryCfg :: "(bytes \<Rightarrow> pyval option) \<Rightarrow> reader" where
  "readRepositoryCfg yaml_load b butlerLocation s =
     (case download_file b ''repositoryCfg.yaml'' s of
        (Inl ClientError, s') \<Rightarrow> (Inr PyNone, s')
      | (Inl e, s') \<Rightarrow> (Inl e, s')
      | (Inr body, s') \<Rightarrow>
          (case yaml_load body of
             None \<Rightarrow> (Inl YAMLError, s')
           | Some cfg \<Rightarrow> (Inr cfg, s')))"

subsection \<open>The formatter of the test suite\<close>

text \<open>
  \<open>writeMyTestObject\<close> and \<open>readMyTestObject\<close> of \<open>tests/test_basics.py\<close>: the object is
  stored under the first location of the \<open>ButlerLocation\<close>; the pickle codec is a parameter.
\<close>

definition writeMyTestObject :: "(pyval \<Rightarrow> bytes) \<Rightarrow> writer" where
  "writeMyTestObject pickle_dump b butlerLocation obj s =
     (case getLocations butlerLocation of
        [] \<Rightarrow> (Inl IndexError, s)
      | key # _ \<Rightarrow> put_object b key (pickle_dump obj) s)"

definition readMyTestObject :: "(bytes \<Rightarrow> pyval option) \<Rightarrow> reader" where
  "readMyTestObject pickle_load b butlerLocation s =
     (case getLocations butlerLocation of
        [] \<Rightarrow> (Inl IndexError, s)
      | key # _ \<Rightarrow>
          (case download_file b key s of
             (Inl ClientError, s') \<Rightarrow> (Inr PyNone, s')
           | (Inl e, s') \<Rightarrow> (Inl e, s')
           | (Inr body, s') \<Rightarrow>
               (case pickle_load body of
                  None \<Rightarrow> (Inl UnpicklingError, s')
                | Some obj \<Rightarrow> (Inr (PyList [obj]), s'))))"

section \<open>The storage class\<close>

text \<open>
  \<open>S3Storage\<close> of \<open>s3Storage.py\<close>. An instance keeps the bucket name and the bucket handle;
  the handle is the boto3 \<open>Bucket\<close> of that name. Every method takes the state of the
  object store and returns the result, or the exception raised, with the state it leaves.
\<close>

record S3Storage =
  bucketName :: string
  bucket :: string

definition bucketExists :: "string \<Rightarrow> s3 \<Rightarrow> (error + bool) \<times> s3" where
  "bucketExists uri s =
     (case head_bucket uri s of
        (Inr _, s') \<Rightarrow> (Inr True, s')
      | (Inl ParamValidationError, s') \<Rightarrow> (Inr False, s')
      | (Inl e, s') \<Rightarrow> (Inl e, s'))"

definition S3Storage_init :: "string \<Rightarrow> bool \<Rightarrow> s3 \<Rightarrow> (error + S3Storage) \<times> s3" where
  "S3Storage_init uri create s =
     (case urlparse uri of
        Inl e \<Rightarrow> (Inl e, s)
      | Inr parseRes \<Rightarrow>
          if upper (scheme parseRes) \<noteq> ''S3''
          then (Inl (RuntimeError ''S3Storage does not support scheme''), s)
          else
            (let name = lstrip CHR ''/''
                          (if netloc parseRes \<noteq> [] then netloc parseRes else path parseRes)
             in case bucketExists uri s of
                  (Inl e, s1) \<Rightarrow> (Inl e, s1)
                | (Inr False, s1) \<Rightarrow>
                    if create
                    then (case create_bucket name s1 of
                            (Inl e, s2) \<Rightarrow> (Inl e, s2)
                          | (Inr _, s2) \<Rightarrow> (Inr \<lparr>bucketName = name, bucket = name\<rparr>, s2))
                    else (Inl (NoRepositroyAtRoot uri), s1)
                | (Inr True, s1) \<Rightarrow> (Inr \<lparr>bucketName = name, bucket = name\<rparr>, s1)))"

definition S3Storage_write ::
    "formatters \<Rightarrow> S3Storage \<Rightarrow> ButlerLocation \<Rightarrow> pyval \<Rightarrow> s3 \<Rightarrow> (error + unit) \<times> s3" where
  "S3Storage_write reg self butlerLocation obj s =
     (case getWriteFormatter reg (type_of obj) of
        None \<Rightarrow> (Inl (RuntimeError ''No write formatter registered''), s)
      | Some writeFormatter \<Rightarrow> writeFormatter (bucket self) butlerLocation obj s)"

definition S3Storage_read ::
    "formatters \<Rightarrow> S3Storage \<Rightarrow> ButlerLocation \<Rightarrow> s3 \<Rightarrow> (error + pyval) \<times> s3" where
  "S3Storage_read reg self butlerLocation s =
     (case getReadFormatter reg (getPythonType butlerLocation) of
        None \<Rightarrow> (Inl (RuntimeError ''No read formatter registered''), s)
      | Some readFormatter \<Rightarrow> readFormatter (bucket self) butlerLocation s)"

fun exists_loop :: "string \<Rightarrow> string list \<Rightarrow> bool" where
  "exists_loop objectName [] = False"
| "exists_loop objectName (key # bucketObjects) =
     (if objectName = key then True else exists_loop objectName bucketObjects)"

definition S3Storage_exists :: "S3Storage \<Rightarrow> ButlerLocation \<Rightarrow> s3 \<Rightarrow> (error + bool) \<times> s3" where
  "S3Storage_exists self location s =
     (case getLocations location of
        [] \<Rightarrow> (Inl IndexError, s)
      | objectName # _ \<Rightarrow>
          (case objects_filter (bucket self) objectName s of
             (Inl e, s') \<Rightarrow> (Inl e, s')
           | (Inr bucketObjects, s') \<Rightarrow> (Inr (exists_loop objectName bucketObjects), s')))"

text \<open>
  \<open>strippedPath\<close> is the local variable of that name in \<open>instanceSearch\<close>, after the
  conditional; \<open>bool\<close> of the answer of \<open>exists\<close> is the answer.
\<close>

definition strippedPath :: "string \<Rightarrow> string" where
  "strippedPath pth =
     (if endswith pth CHR '']'' then slice_to pth (rfind pth CHR ''['') else pth)"

definition instanceSearch :: "S3Storage \<Rightarrow> string \<Rightarrow> s3 \<Rightarrow> (error + bool) \<times> s3" where
  "instanceSearch self pth s =
     S3Storage_exists self \<lparr>pythonType = None, locationList = [strippedPath pth]\<rparr> s"

definition copyFile :: "S3Storage \<Rightarrow> string \<Rightarrow> string \<Rightarrow> s3 \<Rightarrow> (error + unit) \<times> s3" where
  "copyFile self fromLocation toLocation s =
     bucket_copy (bucketName self) fromLocation (bucket self) toLocation s"

text \<open>
  \<open>Storage.makeFromURI\<close> of the persistence framework, with this class registered for its
  scheme (the last two lines of \<open>s3Storage.py\<close>; the parser lower-cases the scheme, so
  the entry \<open>s3\<close> is the one that is found). It builds the storage class registered for
  the scheme of the address and lets its exceptions through; \<open>create\<close> is \<open>True\<close> when the
  caller leaves it out. Other schemes belong to other storage classes, which are not
  part of this development: the model raises the framework's \<open>RuntimeError\<close> for them.
\<close>

definition makeFromURI :: "string \<Rightarrow> bool \<Rightarrow> s3 \<Rightarrow> (error + S3Storage) \<times> s3" where
  "makeFromURI uri create s =
     (case urlparse uri of
        Inl e \<Rightarrow> (Inl e, s)
      | Inr parseRes \<Rightarrow>
          if scheme parseRes \<in> {''s3'', ''S3''}
          then S3Storage_init uri create s
          else (Inl (RuntimeError ''No storage registered for scheme''), s))"

definition cfgLocation :: ButlerLocation where
  "cfgLocation = \<lparr>pythonType = Some RepositoryCfgType, locationList = []\<rparr>"

definition getRepositoryCfg :: "formatters \<Rightarrow> string \<Rightarrow> s3 \<Rightarrow> (error + pyval) \<times> s3" where
  "getRepositoryCfg reg uri s =
     (case makeFromURI uri True s of
        (Inl e, s') \<Rightarrow> (Inl e, s')
      | (Inr storage, s') \<Rightarrow> S3Storage_read reg storage cfgLocation s')"

definition putRepositoryCfg ::
    "formatters \<Rightarrow> RepositoryCfg \<Rightarrow> string option \<Rightarrow> s3 \<Rightarrow> (error + unit) \<times> s3" where
  "putRepositoryCfg reg cfg loc s =
     (case makeFromURI (case loc of None \<Rightarrow> root cfg | Some l \<Rightarrow> l) True s of
        (Inl e, s') \<Rightarrow> (Inl e, s')
      | (Inr storage, s') \<Rightarrow> S3Storage_write reg storage cfgLocation (Cfg cfg) s')"

definition getMapperClass :: "formatters \<Rightarrow> string \<Rightarrow> s3 \<Rightarrow> (error + pyval) \<times> s3" where
  "getMapperClass reg uri s =
     (case getRepositoryCfg reg uri s of
        (Inl e, s') \<Rightarrow> (Inl e, s')
      | (Inr PyNone, s') \<Rightarrow> (Inl (NoRepositroyAtRoot uri), s')
      | (Inr cfg, s') \<Rightarrow> (getattr_mapper cfg, s'))"

text \<open>
  The registry after the package and its test suite are imported: \<open>fmtRepositoryCfg.py\<close>
  registers the configuration formatter, \<open>test_basics.py\<close> the one of \<open>MyTestObject\<close>.
\<close>

definition registered ::
    "(pyval \<Rightarrow> bytes) \<Rightarrow> (bytes \<Rightarrow> pyval option) \<Rightarrow> (pyval \<Rightarrow> bytes) \<Rightarrow> (bytes \<Rightarrow> pyval option)
       \<Rightarrow> formatters" where
  "registered yaml_dump yaml_load pickle_dump pickle_load =
     \<lparr>readFormatters =
        [RepositoryCfgType \<mapsto> readRepositoryCfg yaml_load,
         MyTestObjectType \<mapsto> readMyTestObject pickle_load],
      writeFormatters =
        [RepositoryCfgType \<mapsto> writeRepositoryCfg yaml_dump,
         MyTestObjectType \<mapsto> writeMyTestObject pickle_dump]\<rparr>"

section \<open>Observing the store\<close>

text \<open>
  What a store holds under a key of a bucket (\<open>None\<close> when the bucket or the key is
  missing). The theorems about sequences of calls are stated through it.
\<close>

definition stored :: "s3 \<Rightarrow> string \<Rightarrow> string \<Rightarrow> bytes option" where
  "stored s b key = (case buckets s b of None \<Rightarrow> None | Some objs \<Rightarrow> map_of objs key)"

section \<open>Stores and storages used in examples\<close>

definition test_storage :: S3Storage where
  "test_storage = \<lparr>bucketName = ''test_copy'', bucket = ''test_copy''\<rparr>"

definition fits_store :: s3 where
  "fits_store =
     \<lparr>buckets = [''test_copy'' \<mapsto> [(''foo.fits10'', ''SIMPLE''), (''foo.fits[1]'', ''SIMPLE'')]],
      calls = []\<rparr>"

definition empty_store :: s3 where
  "empty_store = \<lparr>buckets = [''test_copy'' \<mapsto> []], calls = []\<rparr>"

definition no_buckets :: s3 where
  "no_buckets = \<lparr>buckets = Map.empty, calls = []\<rparr>"

text \<open>
  Two small codecs stand in for YAML and pickle in the examples: a configuration is
  written as its three fields on three lines, and a \<open>MyTestObject\<close> that holds a string as
  that string.
\<close>

fun example_yaml_dump :: "pyval \<Rightarrow> bytes" where
  "example_yaml_dump (Cfg c) = root c @ [CHR 0x0A] @ mapper c @ [CHR 0x0A] @ mapperArgs c"
| "example_yaml_dump _ = []"

definition example_yaml_load :: "bytes \<Rightarrow> pyval option" where
  "example_yaml_load body =
     (let (r, rest) = split1 (CHR 0x0A) body;
          (m, a) = split1 (CHR 0x0A) rest
      in Some (Cfg \<lparr>root = r, mapper = m, mapperArgs = a\<rparr>))"

fun example_pickle_dump :: "pyval \<Rightarrow> bytes" where
  "example_pickle_dump (MyTestObject (PyStr v)) = v"
| "example_pickle_dump _ = []"

definition example_pickle_load :: "bytes \<Rightarrow> pyval option" where
  "example_pickle_load body = Some (MyTestObject (PyStr body))"

definition example_formatters :: formatters where
  "example_formatters =
     registered example_yaml_dump example_yaml_load example_pickle_dump example_pickle_load"

definition example_cfg :: RepositoryCfg where
  "example_cfg = \<lparr>root = ''s3:///test_copy'', mapper = ''MyMapper'', mapperArgs = []\<rparr>"

definition testname_location :: ButlerLocation where
  "testname_location = \<lparr>pythonType = Some MyTestObjectType, locationList = [''testname'']\<rparr>"

definition cfg_store :: s3 where
  "cfg_store =
     \<lparr>buckets = [''test_copy'' \<mapsto> [(''repositoryCfg.yaml'', example_yaml_dump (Cfg example_cfg))]],
      calls = []\<rparr>"

definition example_cfg_modified :: RepositoryCfg where
  "example_cfg_modified = example_cfg\<lparr>mapper := ''MyCameraMapper''\<rparr>"

definition nested_cfg :: RepositoryCfg where
  "nested_cfg = \<lparr>root = ''s3:///test_copy/repo'', mapper = ''MyMapper'', mapperArgs = []\<rparr>"

definition cfg_key_location :: ButlerLocation where
  "cfg_key_location =
     \<lparr>pythonType = Some RepositoryCfgType, locationList = [''repositoryCfg.yaml'']\<rparr>"

definition cfg_copy_location :: ButlerLocation where
  "cfg_copy_location = \<lparr>pythonType = Some RepositoryCfgType, locationList = [''copy.yaml'']\<rparr>"

definition cfg_written :: s3 where
  "cfg_written =
     snd (S3Storage_write example_formatters test_storage cfg_key_location (Cfg example_cfg)
            empty_store)"

definition cfg_copied :: s3 where
  "cfg_copied = snd (copyFile test_storage ''repositoryCfg.yaml'' ''copy.yaml'' cfg_written)"

definition cfg_rewritten :: s3 where
  "cfg_rewritten =
     snd (S3Storage_write example_formatters test_storage cfg_key_location
            (Cfg example_cfg_modified) cfg_copied)"

section \<open>Facts about the string operations and the listing\<close>

lemma exists_loop_iff: "exists_loop objectName keys = (objectName \<in> set keys)"
  by (induction keys) auto

lemma startswith_self: "startswith k k"
  by (simp add: startswith_def)

lemma rfind_last_open:
  assumes "CHR ''['' \<notin> set ys"
  shows "rfind (xs @ CHR ''['' # ys @ [CHR '']'']) CHR ''['' = int (length xs)"
proof -
  have "takeWhile (\<lambda>x. x \<noteq> CHR ''['') (rev (xs @ CHR ''['' # ys @ [CHR '']'']))
          = CHR '']'' # rev ys"
    using assms by (auto simp: takeWhile_append2 takeWhile_tail)
  then show ?thesis by (simp add: rfind_def)
qed

lemma rfind_absent: "c \<notin> set s \<Longrightarrow> rfind s c = - 1"
  by (simp add: rfind_def)

lemma strippedPath_bracketed:
  "CHR ''['' \<notin> set ys \<Longrightarrow> strippedPath (xs @ CHR ''['' # ys @ [CHR '']'']) = xs"
  using rfind_last_open [of ys xs]
  by (simp add: strippedPath_def endswith_def slice_to_def)

lemma strippedPath_no_open:
  "CHR ''['' \<notin> set zs \<Longrightarrow> strippedPath (zs @ [CHR '']'']) = zs"
  by (simp add: strippedPath_def endswith_def slice_to_def rfind_absent)

lemma digits_no_bracket:
  "list_all (\<lambda>c. c \<in> set digits) n \<Longrightarrow> CHR ''['' \<notin> set n"
proof
  assume a: "list_all (\<lambda>c. c \<in> set digits) n" and b: "CHR ''['' \<in> set n"
  from a b have "CHR ''['' \<in> set digits" by (simp add: list_all_iff)
  then show False by (simp add: digits_def)
qed

lemma strippedPath_unchanged:
  "\<not> endswith pth CHR '']'' \<Longrightarrow> strippedPath pth = pth"
  by (simp add: strippedPath_def)

lemma S3Storage_exists_first_key:
  "buckets s (bucket self) = Some objs \<Longrightarrow> getLocations location = k # ks \<Longrightarrow>
   S3Storage_exists self location s = (Inr (k \<in> fst ` set objs), request (ListObjects (bucket self) k) s)"
  by (simp add: S3Storage_exists_def objects_filter_def exists_loop_iff startswith_self)

subsection \<open>Addresses of valid bucket names\<close>

lemma valid_bucket_no_delimiter:
  assumes "VALID_BUCKET b" and "c \<in> set ''/?#[]:''"
  shows "c \<notin> set b"
proof
  assume "c \<in> set b"
  with assms(1) have "c \<in> set bucket_chars"
    by (simp add: VALID_BUCKET_def list_all_iff)
  with assms(2) show False
    by (auto simp: bucket_chars_def ascii_lowercase_def ascii_uppercase_def digits_def)
qed

lemma takeWhile_all: "(\<And>x. x \<in> set xs \<Longrightarrow> P x) \<Longrightarrow> takeWhile P xs = xs"
  by (simp add: takeWhile_eq_all_conv)

lemma valid_bucket_netloc:
  assumes "VALID_BUCKET b"
  shows "takeWhile (\<lambda>c. c \<notin> set ''/?#'') b = b"
  using valid_bucket_no_delimiter [OF assms]
  by (intro takeWhile_all) auto

lemma valid_bucket_netloc':
  assumes "VALID_BUCKET b"
  shows "takeWhile (\<lambda>c. c \<noteq> CHR ''/'' \<and> c \<noteq> CHR ''?'' \<and> c \<noteq> CHR ''#'') b = b"
  using valid_bucket_netloc [OF assms] by simp

lemma valid_bucket_no_fragment:
  assumes "VALID_BUCKET b"
  shows "takeWhile (\<lambda>c. c \<noteq> CHR ''#'') b = b" and "takeWhile (\<lambda>c. c \<noteq> CHR ''?'') b = b"
  using valid_bucket_no_delimiter [OF assms]
  by (intro takeWhile_all; auto)+

lemma valid_bucket_lstrip:
  assumes "VALID_BUCKET b"
  shows "lstrip CHR ''/'' b = b"
proof (cases b)
  case Nil
  then show ?thesis by (simp add: lstrip_def)
next
  case (Cons x xs)
  with valid_bucket_no_delimiter [OF assms, of "CHR ''/''"] have "x \<noteq> CHR ''/''" by auto
  with Cons show ?thesis by (simp add: lstrip_def)
qed

lemma urlparse_two_slashes:
  assumes "VALID_BUCKET b"
  shows "urlparse (''s3://'' @ b) =
           Inr \<lparr>scheme = ''s3'', netloc = b, path = [], query = [], fragment = []\<rparr>"
proof -
  have br: "CHR ''['' \<notin> set b" "CHR '']'' \<notin> set b"
    using valid_bucket_no_delimiter [OF assms] by auto
  show ?thesis
    using br
    by (simp add: urlparse_def find_str_def slice_to_def scheme_chars_def ascii_lowercase_def
        ascii_uppercase_def digits_def splitnetloc_def split1_def lower_def lower_char_def
        valid_bucket_netloc' [OF assms])
qed

lemma urlparse_upper_scheme:
  assumes "VALID_BUCKET b"
  shows "urlparse (''S3://'' @ b) =
           Inr \<lparr>scheme = ''s3'', netloc = b, path = [], query = [], fragment = []\<rparr>"
proof -
  have br: "CHR ''['' \<notin> set b" "CHR '']'' \<notin> set b"
    using valid_bucket_no_delimiter [OF assms] by auto
  show ?thesis
    using br
    by (simp add: urlparse_def find_str_def slice_to_def scheme_chars_def ascii_lowercase_def
        ascii_uppercase_def digits_def splitnetloc_def split1_def lower_def lower_char_def
        valid_bucket_netloc' [OF assms])
qed

lemma urlparse_three_slashes:
  assumes "VALID_BUCKET b"
  shows "urlparse (''s3:///'' @ b) =
           Inr \<lparr>scheme = ''s3'', netloc = [], path = CHR ''/'' # b, query = [], fragment = []\<rparr>"
  by (simp add: urlparse_def find_str_def slice_to_def scheme_chars_def ascii_lowercase_def
      ascii_uppercase_def digits_def splitnetloc_def split1_def lower_def lower_char_def
      valid_bucket_no_fragment [OF assms])

subsection \<open>The constructor on an address\<close>

lemma uri_not_a_bucket_name:
  assumes "CHR '':'' \<in> set uri"
  shows "\<not> VALID_BUCKET uri"
proof
  assume "VALID_BUCKET uri"
  then have "CHR '':'' \<in> set bucket_chars"
    using assms by (simp add: VALID_BUCKET_def list_all_iff)
  then show False
    by (simp add: bucket_chars_def ascii_lowercase_def ascii_uppercase_def digits_def)
qed

lemma bucketExists_uri:
  "CHR '':'' \<in> set uri \<Longrightarrow> bucketExists uri s = (Inr False, s)"
  by (simp add: bucketExists_def head_bucket_def uri_not_a_bucket_name)

lemma create_bucket_succeeds:
  assumes "VALID_BUCKET b" and "service_accepts b"
  obtains s2 where "create_bucket b s = (Inr (), s2)"
  using assms by (cases "buckets s b") (simp_all add: create_bucket_def)

lemma create_bucket_ok_iff:
  "(fst (create_bucket b s) = Inr ()) = (VALID_BUCKET b \<and> service_accepts b)"
  by (cases "buckets s b") (simp_all add: create_bucket_def)

lemma S3Storage_init_created:
  assumes "urlparse uri = Inr r" and "upper (scheme r) = ''S3''"
    and "lstrip CHR ''/'' (if netloc r \<noteq> [] then netloc r else path r) = b"
    and "CHR '':'' \<in> set uri" and "VALID_BUCKET b" and "service_accepts b"
  shows "S3Storage_init uri True s = (Inr \<lparr>bucketName = b, bucket = b\<rparr>, snd (create_bucket b s))"
proof -
  obtain s2 where c: "create_bucket b s = (Inr (), s2)"
    using create_bucket_succeeds [OF assms(5,6)] by blast
  show ?thesis
    using assms(1-4) c by (simp add: S3Storage_init_def bucketExists_uri)
qed

lemma S3Storage_init_refuses:
  assumes "urlparse uri = Inr r" and "upper (scheme r) = ''S3''" and "CHR '':'' \<in> set uri"
  shows "S3Storage_init uri False s = (Inl (NoRepositroyAtRoot uri), s)"
  using assms by (simp add: S3Storage_init_def bucketExists_uri)

lemma urlparse_scheme_colon:
  assumes "urlparse uri = Inr r" and "scheme r \<noteq> []"
  shows "CHR '':'' \<in> set uri"
proof (rule ccontr)
  assume n: "CHR '':'' \<notin> set uri"
  then have "find_str uri CHR '':'' = - 1" by (simp add: find_str_def)
  with assms show False
    by (auto simp: urlparse_def Let_def split: if_splits prod.splits)
qed

lemma S3Storage_init_never_opens:
  "fst (S3Storage_init uri False s) \<noteq> Inr storage"
proof (cases "urlparse uri")
  case (Inl e)
  then show ?thesis by (simp add: S3Storage_init_def)
next
  case (Inr r)
  show ?thesis
  proof (cases "upper (scheme r) = ''S3''")
    case True
    then have "scheme r \<noteq> []" by (auto simp: upper_def)
    then have "CHR '':'' \<in> set uri" using Inr by (rule urlparse_scheme_colon [rotated])
    then show ?thesis
      using S3Storage_init_refuses [OF Inr True] by simp
  next
    case False
    then show ?thesis using Inr by (simp add: S3Storage_init_def)
  qed
qed

subsection \<open>Calls on the store\<close>

lemma buckets_request [simp]: "buckets (request c s) = buckets s"
  by (simp add: request_def)

lemma stored_request [simp]: "stored (request c s) = stored s"
  by (simp add: stored_def fun_eq_iff)

lemma create_bucket_buckets:
  "VALID_BUCKET b \<Longrightarrow> service_accepts b \<Longrightarrow>
   buckets (snd (create_bucket b s)) =
     (buckets s)(b \<mapsto> (case buckets s b of None \<Rightarrow> [] | Some objs \<Rightarrow> objs))"
  by (cases "buckets s b") (auto simp: create_bucket_def fun_eq_iff)

lemma create_bucket_present:
  "VALID_BUCKET b \<Longrightarrow> service_accepts b \<Longrightarrow> buckets (snd (create_bucket b s)) b \<noteq> None"
  by (simp add: create_bucket_buckets)

lemma create_bucket_stored:
  "stored (snd (create_bucket b s)) b' key = stored s b' key"
  by (cases "buckets s b") (auto simp: create_bucket_def stored_def)

lemma put_object_present:
  assumes "buckets s b \<noteq> None"
  shows "fst (put_object b key body s) = Inr ()"
    and "stored (snd (put_object b key body s)) b' key' =
           (if b' = b \<and> key' = key then Some body else stored s b' key')"
    and "(buckets (snd (put_object b key body s)) b' \<noteq> None) = (buckets s b' \<noteq> None)"
  using assms by (auto simp: put_object_def stored_def update_conv' split: if_splits)

lemma bucket_copy_present:
  assumes "stored s b src = Some body"
  shows "fst (bucket_copy b src b dst s) = Inr ()"
    and "stored (snd (bucket_copy b src b dst s)) b' key' =
           (if b' = b \<and> key' = dst then Some body else stored s b' key')"
    and "(buckets (snd (bucket_copy b src b dst s)) b' \<noteq> None) = (buckets s b' \<noteq> None)"
  using assms by (auto simp: bucket_copy_def stored_def update_conv' split: option.splits if_splits)

subsection \<open>Opening a storage from an address\<close>

lemma upper_S3_nonempty: "upper sch = ''S3'' \<Longrightarrow> sch \<noteq> []"
  by (auto simp: upper_def)

lemma registered_scheme_upper: "sch \<in> {''s3'', ''S3''} \<Longrightarrow> upper sch = ''S3''"
  by (auto simp: upper_def upper_char_def ascii_lowercase_def ascii_uppercase_def)

lemma S3Storage_init_create:
  assumes "urlparse uri = Inr r" and "upper (scheme r) = ''S3''"
  shows "S3Storage_init uri True s =
     (let b = lstrip CHR ''/'' (if netloc r \<noteq> [] then netloc r else path r)
      in if VALID_BUCKET b
         then (if service_accepts b
               then (Inr \<lparr>bucketName = b, bucket = b\<rparr>, snd (create_bucket b s))
               else (Inl ClientError, request (CreateBucket b) s))
         else (Inl ParamValidationError, s))"
proof -
  have c: "CHR '':'' \<in> set uri"
    using assms upper_S3_nonempty urlparse_scheme_colon by blast
  let ?b = "lstrip CHR ''/'' (if netloc r \<noteq> [] then netloc r else path r)"
  show ?thesis
  proof (cases "VALID_BUCKET ?b \<and> service_accepts ?b")
    case True
    then show ?thesis
      using S3Storage_init_created [OF assms refl c, of s] by (simp add: Let_def)
  next
    case False
    then show ?thesis
      using assms c by (auto simp: S3Storage_init_def bucketExists_uri create_bucket_def Let_def)
  qed
qed

lemma makeFromURI_opens:
  assumes "fst (makeFromURI uri True s) = Inr storage"
  obtains b where "VALID_BUCKET b" and "service_accepts b"
    and "storage = \<lparr>bucketName = b, bucket = b\<rparr>"
    and "\<And>s'. makeFromURI uri True s' = (Inr storage, snd (create_bucket b s'))"
proof (cases "urlparse uri")
  case (Inl e)
  with assms show ?thesis by (simp add: makeFromURI_def)
next
  case (Inr r)
  show ?thesis
  proof (cases "scheme r \<in> {''s3'', ''S3''}")
    case False
    with assms Inr show ?thesis by (simp add: makeFromURI_def)
  next
    case True
    then have up: "upper (scheme r) = ''S3''" by (rule registered_scheme_upper)
    let ?b = "lstrip CHR ''/'' (if netloc r \<noteq> [] then netloc r else path r)"
    have init: "\<And>s'. S3Storage_init uri True s' =
        (if VALID_BUCKET ?b
         then (if service_accepts ?b
               then (Inr \<lparr>bucketName = ?b, bucket = ?b\<rparr>, snd (create_bucket ?b s'))
               else (Inl ClientError, request (CreateBucket ?b) s'))
         else (Inl ParamValidationError, s'))"
      using S3Storage_init_create [OF Inr up] by (simp add: Let_def)
    have v: "VALID_BUCKET ?b" and a: "service_accepts ?b"
      using assms Inr True init [of s] by (auto simp: makeFromURI_def split: if_splits)
    have st: "storage = \<lparr>bucketName = ?b, bucket = ?b\<rparr>"
      using assms Inr True init [of s] v a by (auto simp: makeFromURI_def)
    have "\<And>s'. makeFromURI uri True s' = (Inr storage, snd (create_bucket ?b s'))"
      using Inr True init v a st by (simp add: makeFromURI_def)
    with v a st show ?thesis using that by blast
  qed
qed

lemma urlparse_error: "urlparse uri = Inl e \<Longrightarrow> e = ValueError"
  by (simp add: urlparse_def Let_def split: prod.splits if_splits)

lemma makeFromURI_not_NoRepositroyAtRoot:
  "fst (makeFromURI uri True s) \<noteq> Inl (NoRepositroyAtRoot x)"
proof (cases "urlparse uri")
  case (Inl e)
  then show ?thesis using urlparse_error [OF Inl] by (simp add: makeFromURI_def)
next
  case (Inr r)
  show ?thesis
  proof (cases "scheme r \<in> {''s3'', ''S3''}")
    case True
    then have up: "upper (scheme r) = ''S3''" by (rule registered_scheme_upper)
    show ?thesis
      using Inr True S3Storage_init_create [OF Inr up, of s]
      by (simp add: makeFromURI_def Let_def split: if_splits)
  next
    case False
    with Inr show ?thesis by (simp add: makeFromURI_def)
  qed
qed

subsection \<open>The configuration formatter\<close>

lemma readRepositoryCfg_stored:
  "readRepositoryCfg yaml_load b loc s =
     ((case stored s b ''repositoryCfg.yaml'' of
         None \<Rightarrow> Inr PyNone
       | Some body \<Rightarrow> (case yaml_load body of None \<Rightarrow> Inl YAMLError | Some cfg \<Rightarrow> Inr cfg)),
      request (DownloadFile b ''repositoryCfg.yaml'') s)"
  by (simp add: readRepositoryCfg_def download_file_def stored_def split: option.splits)

lemma writeRepositoryCfg_present:
  assumes "buckets s b \<noteq> None"
  shows "fst (writeRepositoryCfg yaml_dump b loc obj s) = Inr ()"
    and "stored (snd (writeRepositoryCfg yaml_dump b loc obj s)) b ''repositoryCfg.yaml''
           = Some (yaml_dump obj)"
  using put_object_present [OF assms]
  by (simp_all add: writeRepositoryCfg_def remoteCfgName_def)

lemma getRepositoryCfg_not_NoRepositroyAtRoot:
  assumes "readFormatters reg RepositoryCfgType = Some (readRepositoryCfg yaml_load)"
  shows "fst (getRepositoryCfg reg uri s) \<noteq> Inl (NoRepositroyAtRoot x)"
proof (cases "makeFromURI uri True s")
  case (Pair res s')
  with makeFromURI_not_NoRepositroyAtRoot [of uri s x]
  have n: "res \<noteq> Inl (NoRepositroyAtRoot x)" by simp
  show ?thesis
  proof (cases res)
    case (Inl e)
    with Pair n show ?thesis by (simp add: getRepositoryCfg_def)
  next
    case (Inr st)
    with Pair assms show ?thesis
      by (simp add: getRepositoryCfg_def S3Storage_read_def getReadFormatter_def
          getPythonType_def cfgLocation_def readRepositoryCfg_stored split: option.splits)
  qed
qed

lemma getRepositoryCfg_opened:
  assumes "readFormatters reg RepositoryCfgType = Some (readRepositoryCfg yaml_load)"
    and "makeFromURI uri True s = (Inr storage, s1)"
  shows "getRepositoryCfg reg uri s = readRepositoryCfg yaml_load (bucket storage) cfgLocation s1"
  using assms
  by (simp add: getRepositoryCfg_def S3Storage_read_def getReadFormatter_def getPythonType_def
      cfgLocation_def)

subsection \<open>The examples\<close>

lemma valid_test_copy: "VALID_BUCKET ''test_copy''"
  by (simp add: VALID_BUCKET_def bucket_chars_def ascii_lowercase_def ascii_uppercase_def
      digits_def)

lemma accepted_test_copy: "service_accepts ''test_copy''"
  by (simp add: service_accepts_def)

lemma makeFromURI_three_slashes:
  assumes "VALID_BUCKET b" and "service_accepts b"
  shows "makeFromURI (''s3:///'' @ b) True s =
           (Inr \<lparr>bucketName = b, bucket = b\<rparr>, snd (create_bucket b s))"
proof -
  have "S3Storage_init (''s3:///'' @ b) True s =
      (Inr \<lparr>bucketName = b, bucket = b\<rparr>, snd (create_bucket b s))"
    by (rule S3Storage_init_created [OF urlparse_three_slashes [OF assms(1)]])
      (use assms valid_bucket_lstrip [OF assms(1)] in
        \<open>auto simp: lstrip_def upper_def upper_char_def ascii_lowercase_def ascii_uppercase_def\<close>)
  then show ?thesis
    using urlparse_three_slashes [OF assms(1)] by (simp add: makeFromURI_def)
qed

lemma example_formatters_cfg:
  "readFormatters example_formatters RepositoryCfgType = Some (readRepositoryCfg example_yaml_load)"
  "writeFormatters example_formatters RepositoryCfgType = Some (writeRepositoryCfg example_yaml_dump)"
  by (simp_all add: example_formatters_def registered_def)

lemma example_cfg_round_trip:
  "example_yaml_load (example_yaml_dump (Cfg example_cfg)) = Some (Cfg example_cfg)"
  by (simp add: example_yaml_load_def example_cfg_def split1_def)

lemma putRepositoryCfg_then_get:
  assumes rd: "readFormatters reg RepositoryCfgType = Some (readRepositoryCfg yaml_load)"
    and wr: "writeFormatters reg RepositoryCfgType = Some (writeRepositoryCfg yaml_dump)"
    and codec: "yaml_load (yaml_dump (Cfg cfg)) = Some (Cfg cfg)"
    and v: "VALID_BUCKET b" and a: "service_accepts b"
    and mk: "\<And>s'. makeFromURI (root cfg) True s' =
               (Inr \<lparr>bucketName = b, bucket = b\<rparr>, snd (create_bucket b s'))"
  shows "fst (putRepositoryCfg reg cfg None s) = Inr ()"
    and "fst (getRepositoryCfg reg (root cfg) (snd (putRepositoryCfg reg cfg None s)))
           = Inr (Cfg cfg)"
proof -
  let ?s1 = "snd (create_bucket b s)"
  have p: "putRepositoryCfg reg cfg None s = writeRepositoryCfg yaml_dump b cfgLocation (Cfg cfg) ?s1"
    using wr by (simp add: putRepositoryCfg_def mk S3Storage_write_def getWriteFormatter_def)
  have pr: "buckets ?s1 b \<noteq> None"
    using v a by (rule create_bucket_present)
  show "fst (putRepositoryCfg reg cfg None s) = Inr ()"
    unfolding p by (rule writeRepositoryCfg_present(1) [OF pr])
  let ?s2 = "snd (putRepositoryCfg reg cfg None s)"
  have st: "stored ?s2 b ''repositoryCfg.yaml'' = Some (yaml_dump (Cfg cfg))"
    unfolding p by (rule writeRepositoryCfg_present(2) [OF pr])
  have "stored (snd (create_bucket b ?s2)) b ''repositoryCfg.yaml'' = Some (yaml_dump (Cfg cfg))"
    using st by (simp add: create_bucket_stored)
  then show "fst (getRepositoryCfg reg (root cfg) ?s2) = Inr (Cfg cfg)"
    using codec by (simp add: getRepositoryCfg_opened [OF rd mk] readRepositoryCfg_stored)
qed

lemma example_cfg_modified_round_trip:
  "example_yaml_load (example_yaml_dump (Cfg example_cfg_modified)) = Some (Cfg example_cfg_modified)"
  by (simp add: example_yaml_load_def example_cfg_modified_def example_cfg_def split1_def)

subsection \<open>The test formatter\<close>

lemma readMyTestObject_stored:
  "readMyTestObject pickle_load b \<lparr>pythonType = t, locationList = key # ks\<rparr> s =
     ((case stored s b key of
         None \<Rightarrow> Inr PyNone
       | Some body \<Rightarrow>
           (case pickle_load body of None \<Rightarrow> Inl UnpicklingError | Some obj \<Rightarrow> Inr (PyList [obj]))),
      request (DownloadFile b key) s)"
  by (simp add: readMyTestObject_def getLocations_def download_file_def stored_def
      split: option.splits)

lemma writeMyTestObject_put:
  "writeMyTestObject pickle_dump b \<lparr>pythonType = t, locationList = key # ks\<rparr> obj s =
     put_object b key (pickle_dump obj) s"
  by (simp add: writeMyTestObject_def getLocations_def)

lemma example_formatters_test:
  "readFormatters example_formatters MyTestObjectType = Some (readMyTestObject example_pickle_load)"
  "writeFormatters example_formatters MyTestObjectType = Some (writeMyTestObject example_pickle_dump)"
  by (simp_all add: example_formatters_def registered_def)

lemma urlparse_nested_root:
  "urlparse ''s3:///test_copy/repo'' =
     Inr \<lparr>scheme = ''s3'', netloc = [], path = ''/test_copy/repo'', query = [], fragment = []\<rparr>"
  by (simp add: urlparse_def find_str_def slice_to_def scheme_chars_def ascii_lowercase_def
      ascii_uppercase_def digits_def splitnetloc_def split1_def lower_def lower_char_def)

lemma nested_root_not_a_bucket: "\<not> VALID_BUCKET ''test_copy/repo''"
  by (simp add: VALID_BUCKET_def bucket_chars_def ascii_lowercase_def ascii_uppercase_def
      digits_def)

lemma makeFromURI_nested_root:
  "makeFromURI ''s3:///test_copy/repo'' True s = (Inl ParamValidationError, s)"
proof -
  have up: "upper ''s3'' = ''S3''"
    by (simp add: upper_def upper_char_def ascii_lowercase_def ascii_uppercase_def)
  have "S3Storage_init ''s3:///test_copy/repo'' True s = (Inl ParamValidationError, s)"
    using S3Storage_init_create [OF urlparse_nested_root, of s] nested_root_not_a_bucket up
    by (simp add: lstrip_def)
  then show ?thesis
    by (simp add: makeFromURI_def urlparse_nested_root)
qed

lemma write_cfg_example:
  "S3Storage_write example_formatters test_storage loc (Cfg c) s =
     put_object ''test_copy'' ''repositoryCfg.yaml'' (example_yaml_dump (Cfg c)) s"
  by (simp add: S3Storage_write_def getWriteFormatter_def example_formatters_cfg
      writeRepositoryCfg_def remoteCfgName_def test_storage_def del: example_yaml_dump.simps)

lemma read_cfg_example:
  "fst (S3Storage_read example_formatters test_storage
          \<lparr>pythonType = Some RepositoryCfgType, locationList = ks\<rparr> s) =
     (case stored s ''test_copy'' ''repositoryCfg.yaml'' of
        None \<Rightarrow> Inr PyNone
      | Some body \<Rightarrow>
          (case example_yaml_load body of None \<Rightarrow> Inl YAMLError | Some cfg \<Rightarrow> Inr cfg))"
  by (simp add: S3Storage_read_def getReadFormatter_def getPythonType_def example_formatters_cfg
      readRepositoryCfg_stored test_storage_def)

section \<open>Existence and instance search\<close>

text \<open>
  Claim C2. For a location whose first key is \<open>k\<close>, \<open>exists\<close> on a storage whose bucket is
  in the store answers whether some object of the bucket has exactly the key \<open>k\<close>. After
  storing only \<open>foo.fits\<close> in an empty bucket it answers true for \<open>foo.fits\<close> and false for
  \<open>foo.fits1\<close>; and where the bucket holds \<open>foo.fits10\<close>, the prefix listing for \<open>foo.fits1\<close>
  returns that longer key and \<open>exists\<close> still answers false.
\<close>

theorem exists_exact_key:
  "(buckets s (bucket self) = Some objs \<and> getLocations location = k # ks \<longrightarrow>
      fst (S3Storage_exists self location s) = Inr (k \<in> fst ` set objs)) \<and>
   (buckets s b = Some [] \<longrightarrow>
      fst (S3Storage_exists \<lparr>bucketName = b, bucket = b\<rparr>
             \<lparr>pythonType = t, locationList = [''foo.fits'']\<rparr>
             (snd (put_object b ''foo.fits'' body s))) = Inr True \<and>
      fst (S3Storage_exists \<lparr>bucketName = b, bucket = b\<rparr>
             \<lparr>pythonType = t, locationList = [''foo.fits1'']\<rparr>
             (snd (put_object b ''foo.fits'' body s))) = Inr False) \<and>
   (buckets s b = Some [(''foo.fits10'', body)] \<longrightarrow>
      fst (objects_filter b ''foo.fits1'' s) = Inr [''foo.fits10''] \<and>
      fst (S3Storage_exists \<lparr>bucketName = b, bucket = b\<rparr>
             \<lparr>pythonType = t, locationList = [''foo.fits1'']\<rparr> s) = Inr False)"
proof (intro conjI impI)
  assume "buckets s (bucket self) = Some objs \<and> getLocations location = k # ks"
  then show "fst (S3Storage_exists self location s) = Inr (k \<in> fst ` set objs)"
    by (simp add: S3Storage_exists_first_key)
next
  assume e: "buckets s b = Some []"
  let ?s1 = "snd (put_object b ''foo.fits'' body s)"
  have s1: "buckets ?s1 b = Some [(''foo.fits'', body)]"
    using e by (simp add: put_object_def request_def)
  show "fst (S3Storage_exists \<lparr>bucketName = b, bucket = b\<rparr>
             \<lparr>pythonType = t, locationList = [''foo.fits'']\<rparr> ?s1) = Inr True"
    using s1 by (simp add: S3Storage_exists_first_key getLocations_def)
  show "fst (S3Storage_exists \<lparr>bucketName = b, bucket = b\<rparr>
             \<lparr>pythonType = t, locationList = [''foo.fits1'']\<rparr> ?s1) = Inr False"
    using s1 by (simp add: S3Storage_exists_first_key getLocations_def)
next
  assume e: "buckets s b = Some [(''foo.fits10'', body)]"
  show "fst (objects_filter b ''foo.fits1'' s) = Inr [''foo.fits10'']"
    using e by (simp add: objects_filter_def startswith_def)
  show "fst (S3Storage_exists \<lparr>bucketName = b, bucket = b\<rparr>
             \<lparr>pythonType = t, locationList = [''foo.fits1'']\<rparr> s) = Inr False"
    using e by (simp add: S3Storage_exists_first_key getLocations_def)
qed

theorem exists_exact_key_witness:
  "fst (S3Storage_exists test_storage \<lparr>pythonType = None, locationList = [''foo.fits1'']\<rparr> fits_store)
     = Inr False \<and>
   fst (S3Storage_exists test_storage \<lparr>pythonType = None, locationList = [''foo.fits'']\<rparr>
          (snd (put_object ''test_copy'' ''foo.fits'' ''SIMPLE'' empty_store))) = Inr True \<and>
   fst (S3Storage_exists test_storage \<lparr>pythonType = None, locationList = [''foo.fits1'']\<rparr>
          (snd (put_object ''test_copy'' ''foo.fits'' ''SIMPLE'' empty_store))) = Inr False"
  using exists_exact_key [of fits_store test_storage
      "[(''foo.fits10'', ''SIMPLE''), (''foo.fits[1]'', ''SIMPLE'')]"
      "\<lparr>pythonType = None, locationList = [''foo.fits1'']\<rparr>" "''foo.fits1''" "[]"]
    exists_exact_key [of empty_store test_storage "[]"
      "\<lparr>pythonType = None, locationList = [''foo.fits1'']\<rparr>" "''foo.fits1''" "[]"
      "''test_copy''" None "''SIMPLE''"]
  by (simp add: test_storage_def fits_store_def empty_store_def getLocations_def)

text \<open>
  Claim C3. For every path \<open>p\<close> and every suffix \<open>[n]\<close> of digits, \<open>instanceSearch\<close> on
  \<open>p[n]\<close> answers whether the bucket has an object with key \<open>p\<close>, whatever other keys the
  bucket holds (the literal key \<open>p[n]\<close> among them); a path that does not end in \<open>]\<close> is
  looked up as it is.
\<close>

theorem instanceSearch_hdu_suffix:
  "(buckets s (bucket self) = Some objs \<and> list_all (\<lambda>c. c \<in> set digits) n \<longrightarrow>
      fst (instanceSearch self (p @ ''['' @ n @ '']'') s) = Inr (p \<in> fst ` set objs)) \<and>
   (\<not> endswith pth CHR '']'' \<longrightarrow>
      instanceSearch self pth s =
        S3Storage_exists self \<lparr>pythonType = None, locationList = [pth]\<rparr> s)"
proof (intro conjI impI)
  assume a: "buckets s (bucket self) = Some objs \<and> list_all (\<lambda>c. c \<in> set digits) n"
  then have "CHR ''['' \<notin> set n"
    by (simp add: digits_no_bracket)
  then have sp: "strippedPath (p @ ''['' @ n @ '']'') = p"
    using strippedPath_bracketed [of n p] by simp
  have loc: "getLocations \<lparr>pythonType = None, locationList = [p]\<rparr> = p # []"
    by (simp add: getLocations_def)
  from a have b: "buckets s (bucket self) = Some objs" by simp
  show "fst (instanceSearch self (p @ ''['' @ n @ '']'') s) = Inr (p \<in> fst ` set objs)"
    unfolding instanceSearch_def sp
    by (simp only: S3Storage_exists_first_key [OF b loc] fst_conv)
next
  assume "\<not> endswith pth CHR '']''"
  then show "instanceSearch self pth s =
      S3Storage_exists self \<lparr>pythonType = None, locationList = [pth]\<rparr> s"
    by (simp add: instanceSearch_def strippedPath_unchanged)
qed

theorem instanceSearch_hdu_suffix_witness:
  "fst (instanceSearch test_storage ''foo.fits[1]'' fits_store) = Inr False \<and>
   fst (instanceSearch test_storage ''foo.fits10[1]'' fits_store) = Inr True \<and>
   instanceSearch test_storage ''foo.fits10'' fits_store =
     S3Storage_exists test_storage \<lparr>pythonType = None, locationList = [''foo.fits10'']\<rparr> fits_store"
  using instanceSearch_hdu_suffix [of fits_store test_storage
      "[(''foo.fits10'', ''SIMPLE''), (''foo.fits[1]'', ''SIMPLE'')]" "''1''" "''foo.fits''"
      "''foo.fits10''"]
    instanceSearch_hdu_suffix [of fits_store test_storage
      "[(''foo.fits10'', ''SIMPLE''), (''foo.fits[1]'', ''SIMPLE'')]" "''1''" "''foo.fits10''"
      "''foo.fits10''"]
  by (simp add: test_storage_def fits_store_def digits_def endswith_def)

text \<open>
  Claim C9. On a location with no locations, \<open>exists\<close> raises \<open>IndexError\<close> at the access
  to the first key, before any request to the store, rather than answering false;
  \<open>instanceSearch\<close> builds a one-element list and never raises \<open>IndexError\<close>.
\<close>

theorem exists_needs_a_location:
  "(getLocations location = [] \<longrightarrow> S3Storage_exists self location s = (Inl IndexError, s)) \<and>
   fst (instanceSearch self pth s) \<noteq> Inl IndexError"
  by (simp add: S3Storage_exists_def instanceSearch_def getLocations_def objects_filter_def
      split: option.splits)

theorem exists_needs_a_location_witness:
  "S3Storage_exists test_storage \<lparr>pythonType = None, locationList = []\<rparr> fits_store
     = (Inl IndexError, fits_store) \<and>
   fst (instanceSearch test_storage [] fits_store) \<noteq> Inl IndexError"
  using exists_needs_a_location [of "\<lparr>pythonType = None, locationList = []\<rparr>"
      test_storage fits_store "[]"]
  by (simp add: getLocations_def)

text \<open>
  Claim C10. The stripping looks only at the final \<open>]\<close> and the last \<open>[\<close>: a path
  \<open>xs[ys]\<close> whose bracketed part \<open>ys\<close> has no \<open>[\<close> (digits or not) is searched as \<open>xs\<close>, and
  a path \<open>zs]\<close> with no \<open>[\<close> at all loses its final character only and is searched as
  \<open>zs\<close>.
\<close>

theorem instanceSearch_strips_from_last_bracket:
  "(CHR ''['' \<notin> set ys \<longrightarrow>
      strippedPath (xs @ ''['' @ ys @ '']'') = xs \<and>
      instanceSearch self (xs @ ''['' @ ys @ '']'') s =
        S3Storage_exists self \<lparr>pythonType = None, locationList = [xs]\<rparr> s) \<and>
   (CHR ''['' \<notin> set zs \<longrightarrow>
      strippedPath (zs @ '']'') = zs \<and>
      instanceSearch self (zs @ '']'') s =
        S3Storage_exists self \<lparr>pythonType = None, locationList = [zs]\<rparr> s)"
  by (simp add: instanceSearch_def strippedPath_bracketed strippedPath_no_open)

theorem instanceSearch_strips_from_last_bracket_witness:
  "strippedPath ''foo[bar]'' = ''foo'' \<and>
   instanceSearch test_storage ''foo[bar]'' fits_store =
     S3Storage_exists test_storage \<lparr>pythonType = None, locationList = [''foo'']\<rparr> fits_store \<and>
   strippedPath ''foo]'' = ''foo'' \<and>
   instanceSearch test_storage ''foo]'' fits_store =
     S3Storage_exists test_storage \<lparr>pythonType = None, locationList = [''foo'']\<rparr> fits_store"
  using instanceSearch_strips_from_last_bracket [of "''bar''" "''foo''" test_storage fits_store
      "''foo''"]
  by simp

section \<open>Construction\<close>

text \<open>
  Claim C7. For every bucket name \<open>b\<close>, whenever the bucket can be created, construction
  (with creation allowed) from \<open>s3://b\<close>, from \<open>s3:///b\<close> and from \<open>S3://b\<close> gives a storage
  bound to the bucket \<open>b\<close> and leaves the same store: the name comes from the network
  location in the first form and from the path without its leading slash in the second,
  and the scheme is compared without regard to case. For every name that the client
  accepts the three forms have the same result, also where the service refuses to create
  the bucket, and a storage that is returned is bound to \<open>b\<close>.
\<close>

theorem slash_count_equivalence:
  "(fst (create_bucket b s) = Inr () \<longrightarrow>
     S3Storage_init (''s3://'' @ b) True s =
       (Inr \<lparr>bucketName = b, bucket = b\<rparr>, snd (create_bucket b s)) \<and>
     S3Storage_init (''s3:///'' @ b) True s =
       (Inr \<lparr>bucketName = b, bucket = b\<rparr>, snd (create_bucket b s)) \<and>
     S3Storage_init (''S3://'' @ b) True s =
       (Inr \<lparr>bucketName = b, bucket = b\<rparr>, snd (create_bucket b s))) \<and>
   (VALID_BUCKET b \<longrightarrow>
     S3Storage_init (''s3:///'' @ b) True s = S3Storage_init (''s3://'' @ b) True s \<and>
     S3Storage_init (''S3://'' @ b) True s = S3Storage_init (''s3://'' @ b) True s \<and>
     (fst (S3Storage_init (''s3://'' @ b) True s) = Inr storage \<longrightarrow>
        storage = \<lparr>bucketName = b, bucket = b\<rparr>))"
proof -
  have up: "upper ''s3'' = ''S3''"
    by (simp add: upper_def upper_char_def ascii_lowercase_def ascii_uppercase_def)
  have forms: "S3Storage_init (''s3://'' @ b) True s =
        (if service_accepts b
         then (Inr \<lparr>bucketName = b, bucket = b\<rparr>, snd (create_bucket b s))
         else (Inl ClientError, request (CreateBucket b) s))"
      "S3Storage_init (''s3:///'' @ b) True s =
        (if service_accepts b
         then (Inr \<lparr>bucketName = b, bucket = b\<rparr>, snd (create_bucket b s))
         else (Inl ClientError, request (CreateBucket b) s))"
      "S3Storage_init (''S3://'' @ b) True s =
        (if service_accepts b
         then (Inr \<lparr>bucketName = b, bucket = b\<rparr>, snd (create_bucket b s))
         else (Inl ClientError, request (CreateBucket b) s))"
    if v: "VALID_BUCKET b"
  proof -
    have n: "b \<noteq> []" using v by (auto simp: VALID_BUCKET_def)
    have l: "lstrip CHR ''/'' b = b" by (rule valid_bucket_lstrip [OF v])
    have l': "lstrip CHR ''/'' (CHR ''/'' # b) = b" using l by (simp add: lstrip_def)
    show "S3Storage_init (''s3://'' @ b) True s =
        (if service_accepts b
         then (Inr \<lparr>bucketName = b, bucket = b\<rparr>, snd (create_bucket b s))
         else (Inl ClientError, request (CreateBucket b) s))"
      using S3Storage_init_create [OF urlparse_two_slashes [OF v], of s] up v n l
      by (simp add: Let_def)
    show "S3Storage_init (''s3:///'' @ b) True s =
        (if service_accepts b
         then (Inr \<lparr>bucketName = b, bucket = b\<rparr>, snd (create_bucket b s))
         else (Inl ClientError, request (CreateBucket b) s))"
      using S3Storage_init_create [OF urlparse_three_slashes [OF v], of s] up v l'
      by (simp add: Let_def)
    show "S3Storage_init (''S3://'' @ b) True s =
        (if service_accepts b
         then (Inr \<lparr>bucketName = b, bucket = b\<rparr>, snd (create_bucket b s))
         else (Inl ClientError, request (CreateBucket b) s))"
      using S3Storage_init_create [OF urlparse_upper_scheme [OF v], of s] up v n l
      by (simp add: Let_def)
  qed
  show ?thesis
  proof (intro conjI impI)
    assume "fst (create_bucket b s) = Inr ()"
    then have va: "VALID_BUCKET b" "service_accepts b"
      by (simp_all add: create_bucket_ok_iff)
    show "S3Storage_init (''s3://'' @ b) True s =
        (Inr \<lparr>bucketName = b, bucket = b\<rparr>, snd (create_bucket b s))"
      using forms(1) [OF va(1)] va(2) by simp
    show "S3Storage_init (''s3:///'' @ b) True s =
        (Inr \<lparr>bucketName = b, bucket = b\<rparr>, snd (create_bucket b s))"
      using forms(2) [OF va(1)] va(2) by simp
    show "S3Storage_init (''S3://'' @ b) True s =
        (Inr \<lparr>bucketName = b, bucket = b\<rparr>, snd (create_bucket b s))"
      using forms(3) [OF va(1)] va(2) by simp
  next
    assume v: "VALID_BUCKET b"
    show "S3Storage_init (''s3:///'' @ b) True s = S3Storage_init (''s3://'' @ b) True s"
      by (simp only: forms(1) [OF v] forms(2) [OF v])
    show "S3Storage_init (''S3://'' @ b) True s = S3Storage_init (''s3://'' @ b) True s"
      by (simp only: forms(1) [OF v] forms(3) [OF v])
    show "storage = \<lparr>bucketName = b, bucket = b\<rparr>"
      if "fst (S3Storage_init (''s3://'' @ b) True s) = Inr storage"
      using that forms(1) [OF v] by (simp split: if_splits)
  qed
qed

theorem slash_count_equivalence_witness:
  "fst (create_bucket ''test_slashcount'' no_buckets) = Inr () \<and>
   fst (S3Storage_init ''s3://test_slashcount'' True no_buckets) =
     Inr \<lparr>bucketName = ''test_slashcount'', bucket = ''test_slashcount''\<rparr> \<and>
   fst (S3Storage_init ''s3:///test_slashcount'' True no_buckets) =
     Inr \<lparr>bucketName = ''test_slashcount'', bucket = ''test_slashcount''\<rparr> \<and>
   fst (S3Storage_init ''S3://test_slashcount'' True no_buckets) =
     Inr \<lparr>bucketName = ''test_slashcount'', bucket = ''test_slashcount''\<rparr> \<and>
   VALID_BUCKET ''ab'' \<and>
   fst (S3Storage_init ''s3://ab'' True no_buckets) = Inl ClientError \<and>
   S3Storage_init ''s3:///ab'' True no_buckets = S3Storage_init ''s3://ab'' True no_buckets \<and>
   S3Storage_init ''S3://ab'' True no_buckets = S3Storage_init ''s3://ab'' True no_buckets"
proof -
  have v: "VALID_BUCKET ''test_slashcount''" "VALID_BUCKET ''ab''"
    by (simp_all add: VALID_BUCKET_def bucket_chars_def ascii_lowercase_def ascii_uppercase_def
        digits_def)
  have c: "fst (create_bucket ''test_slashcount'' no_buckets) = Inr ()"
    using v(1) by (simp add: create_bucket_ok_iff service_accepts_def)
  have r: "fst (S3Storage_init ''s3://ab'' True no_buckets) = Inl ClientError"
    using S3Storage_init_create [OF urlparse_two_slashes [OF v(2)], of no_buckets] v(2)
    by (simp add: Let_def lstrip_def service_accepts_def upper_def upper_char_def
        ascii_lowercase_def ascii_uppercase_def)
  note created = slash_count_equivalence [of "''test_slashcount''" no_buckets,
      THEN conjunct1, THEN mp, OF c]
  note same = slash_count_equivalence [of "''ab''" no_buckets, THEN conjunct2, THEN mp, OF v(2)]
  have c1: "fst (S3Storage_init ''s3://test_slashcount'' True no_buckets) =
      Inr \<lparr>bucketName = ''test_slashcount'', bucket = ''test_slashcount''\<rparr>"
    using created [THEN conjunct1] by simp
  have c2: "fst (S3Storage_init ''s3:///test_slashcount'' True no_buckets) =
      Inr \<lparr>bucketName = ''test_slashcount'', bucket = ''test_slashcount''\<rparr>"
    using created [THEN conjunct2, THEN conjunct1] by simp
  have c3: "fst (S3Storage_init ''S3://test_slashcount'' True no_buckets) =
      Inr \<lparr>bucketName = ''test_slashcount'', bucket = ''test_slashcount''\<rparr>"
    using created [THEN conjunct2, THEN conjunct2] by simp
  have s1: "S3Storage_init ''s3:///ab'' True no_buckets = S3Storage_init ''s3://ab'' True no_buckets"
    using same [THEN conjunct1] by simp
  have s2: "S3Storage_init ''S3://ab'' True no_buckets = S3Storage_init ''s3://ab'' True no_buckets"
    using same [THEN conjunct2, THEN conjunct1] by simp
  from c c1 c2 c3 v(2) r s1 s2 show ?thesis by blast
qed

text \<open>
  Claim C1 says that construction without creation succeeds whenever the bucket exists.
  The constructor asks \<open>head_bucket\<close> about the URI, not about the bucket name, and takes
  the client's refusal of that name for the absence of the bucket. In a store where the
  bucket \<open>test_copy\<close> exists, construction without creation from \<open>s3://test_copy\<close> and from
  \<open>s3:///test_copy\<close> raises \<open>NoRepositroyAtRoot\<close>. (\<open>S3Storage_init_never_opens\<close>: it does so
  or raises another exception for every address and every store.)
\<close>

theorem construct_refuses_existing_bucket:
  "buckets empty_store ''test_copy'' = Some [] \<and>
   S3Storage_init ''s3://test_copy'' False empty_store =
     (Inl (NoRepositroyAtRoot ''s3://test_copy''), empty_store) \<and>
   S3Storage_init ''s3:///test_copy'' False empty_store =
     (Inl (NoRepositroyAtRoot ''s3:///test_copy''), empty_store)"
proof -
  have v: "VALID_BUCKET ''test_copy''"
    by (simp add: VALID_BUCKET_def bucket_chars_def ascii_lowercase_def ascii_uppercase_def
        digits_def)
  have up: "upper ''s3'' = ''S3''"
    by (simp add: upper_def upper_char_def ascii_lowercase_def ascii_uppercase_def)
  have a: "S3Storage_init (''s3://'' @ ''test_copy'') False empty_store =
      (Inl (NoRepositroyAtRoot (''s3://'' @ ''test_copy'')), empty_store)"
    by (rule S3Storage_init_refuses [OF urlparse_two_slashes [OF v]]) (simp_all add: up)
  have b: "S3Storage_init (''s3:///'' @ ''test_copy'') False empty_store =
      (Inl (NoRepositroyAtRoot (''s3:///'' @ ''test_copy'')), empty_store)"
    by (rule S3Storage_init_refuses [OF urlparse_three_slashes [OF v]]) (simp_all add: up)
  from a b show ?thesis by (simp add: empty_store_def)
qed

section \<open>Repository configuration\<close>

text \<open>
  Claim C8. With the configuration reader registered, \<open>getMapperClass\<close> raises
  \<open>NoRepositroyAtRoot\<close> exactly when \<open>getRepositoryCfg\<close> returns \<open>None\<close> (and then for the
  root it was asked about); when \<open>getRepositoryCfg\<close> returns a configuration it returns
  the mapper of that configuration. \<open>getRepositoryCfg\<close> returns \<open>None\<close>, and does not
  raise, when a storage can be opened at the address and its bucket holds nothing under
  the configuration key.
\<close>

theorem getMapperClass_no_repository:
  assumes "readFormatters reg RepositoryCfgType = Some (readRepositoryCfg yaml_load)"
  shows "((\<exists>x. fst (getMapperClass reg uri s) = Inl (NoRepositroyAtRoot x)) \<longleftrightarrow>
            fst (getRepositoryCfg reg uri s) = Inr PyNone) \<and>
         (fst (getRepositoryCfg reg uri s) = Inr PyNone \<longrightarrow>
            fst (getMapperClass reg uri s) = Inl (NoRepositroyAtRoot uri)) \<and>
         (fst (getRepositoryCfg reg uri s) = Inr (Cfg c) \<longrightarrow>
            fst (getMapperClass reg uri s) = Inr (PyStr (mapper c))) \<and>
         (fst (makeFromURI uri True s) = Inr storage \<and>
          stored (snd (makeFromURI uri True s)) (bucket storage) remoteCfgName = None \<longrightarrow>
            fst (getRepositoryCfg reg uri s) = Inr PyNone)"
proof (intro conjI impI)
  obtain res s' where g: "getRepositoryCfg reg uri s = (res, s')"
    by (cases "getRepositoryCfg reg uri s")
  have n: "\<And>x. res \<noteq> Inl (NoRepositroyAtRoot x)"
    using getRepositoryCfg_not_NoRepositroyAtRoot [OF assms, of uri s] g by simp
  have m: "fst (getMapperClass reg uri s) =
      (case res of Inl e \<Rightarrow> Inl e | Inr PyNone \<Rightarrow> Inl (NoRepositroyAtRoot uri)
       | Inr cfg \<Rightarrow> getattr_mapper cfg)"
    using g by (simp add: getMapperClass_def split: sum.splits pyval.splits)
  show "(\<exists>x. fst (getMapperClass reg uri s) = Inl (NoRepositroyAtRoot x)) \<longleftrightarrow>
      fst (getRepositoryCfg reg uri s) = Inr PyNone"
  proof (cases res)
    case (Inl e)
    with n m g show ?thesis by auto
  next
    case (Inr v)
    with m g show ?thesis by (cases v) auto
  qed
  show "fst (getMapperClass reg uri s) = Inl (NoRepositroyAtRoot uri)"
    if "fst (getRepositoryCfg reg uri s) = Inr PyNone"
    using that m g by simp
  show "fst (getMapperClass reg uri s) = Inr (PyStr (mapper c))"
    if "fst (getRepositoryCfg reg uri s) = Inr (Cfg c)"
    using that m g by simp
  show "fst (getRepositoryCfg reg uri s) = Inr PyNone"
    if h: "fst (makeFromURI uri True s) = Inr storage \<and>
      stored (snd (makeFromURI uri True s)) (bucket storage) remoteCfgName = None"
  proof -
    obtain s1 where o: "makeFromURI uri True s = (Inr storage, s1)"
      using h by (cases "makeFromURI uri True s") simp
    with h have "stored s1 (bucket storage) ''repositoryCfg.yaml'' = None"
      by (simp add: remoteCfgName_def)
    then show ?thesis
      by (simp add: getRepositoryCfg_opened [OF assms o] readRepositoryCfg_stored)
  qed
qed

theorem getMapperClass_no_repository_witness:
  "readFormatters example_formatters RepositoryCfgType
     = Some (readRepositoryCfg example_yaml_load) \<and>
   fst (getRepositoryCfg example_formatters ''s3:///test_copy'' empty_store) = Inr PyNone \<and>
   fst (getMapperClass example_formatters ''s3:///test_copy'' empty_store)
     = Inl (NoRepositroyAtRoot ''s3:///test_copy'') \<and>
   fst (getRepositoryCfg example_formatters ''s3:///test_copy'' cfg_store)
     = Inr (Cfg example_cfg) \<and>
   fst (getMapperClass example_formatters ''s3:///test_copy'' cfg_store)
     = Inr (PyStr ''MyMapper'')"
proof -
  note reg = example_formatters_cfg(1)
  have mk: "\<And>s. makeFromURI ''s3:///test_copy'' True s =
      (Inr test_storage, snd (create_bucket ''test_copy'' s))"
    using makeFromURI_three_slashes [OF valid_test_copy accepted_test_copy] by (simp add: test_storage_def)
  have e0: "stored empty_store ''test_copy'' remoteCfgName = None"
    by (simp add: stored_def empty_store_def)
  have e: "stored (snd (makeFromURI ''s3:///test_copy'' True empty_store))
      (bucket test_storage) remoteCfgName = None"
    using e0 by (simp add: mk create_bucket_stored test_storage_def)
  have c0: "stored cfg_store ''test_copy'' ''repositoryCfg.yaml''
      = Some (example_yaml_dump (Cfg example_cfg))"
    by (simp add: stored_def cfg_store_def)
  have c: "fst (getRepositoryCfg example_formatters ''s3:///test_copy'' cfg_store)
      = Inr (Cfg example_cfg)"
    using c0
    by (simp add: getRepositoryCfg_opened [OF reg mk] readRepositoryCfg_stored
        create_bucket_stored test_storage_def example_cfg_round_trip
        del: example_yaml_dump.simps)
  from getMapperClass_no_repository [OF reg, of "''s3:///test_copy''" empty_store example_cfg
      test_storage]
    getMapperClass_no_repository [OF reg, of "''s3:///test_copy''" cfg_store example_cfg
      test_storage]
    e c mk reg
  show ?thesis by (simp add: example_cfg_def)
qed

text \<open>
  Claim C4, amended. With the configuration formatter registered and a YAML codec that
  reads back what it wrote, for every configuration whose root is an address at which
  a storage can be opened (the scheme is \<open>s3\<close> and what follows is a bucket name that the
  client and the service accept): \<open>putRepositoryCfg\<close> without a location succeeds, \<open>getRepositoryCfg\<close>
  of the root then returns the configuration, and a second \<open>putRepositoryCfg\<close> of a
  modified configuration with the same root replaces it, so that \<open>getRepositoryCfg\<close>
  returns the modified one.
\<close>

theorem putRepositoryCfg_round_trip:
  assumes "readFormatters reg RepositoryCfgType = Some (readRepositoryCfg yaml_load)"
    and "writeFormatters reg RepositoryCfgType = Some (writeRepositoryCfg yaml_dump)"
    and "yaml_load (yaml_dump (Cfg cfg)) = Some (Cfg cfg)"
    and "yaml_load (yaml_dump (Cfg cfg')) = Some (Cfg cfg')"
    and "fst (makeFromURI (root cfg) True s) = Inr storage"
    and "root cfg' = root cfg"
  shows "\<exists>s1 s2 s3 s4.
           putRepositoryCfg reg cfg None s = (Inr (), s1) \<and>
           getRepositoryCfg reg (root cfg) s1 = (Inr (Cfg cfg), s2) \<and>
           putRepositoryCfg reg cfg' None s2 = (Inr (), s3) \<and>
           getRepositoryCfg reg (root cfg) s3 = (Inr (Cfg cfg'), s4)"
proof -
  obtain b where v: "VALID_BUCKET b" and acc: "service_accepts b"
    and mk: "\<And>s'. makeFromURI (root cfg) True s' =
               (Inr \<lparr>bucketName = b, bucket = b\<rparr>, snd (create_bucket b s'))"
    using makeFromURI_opens [OF assms(5)] by metis
  have mk': "\<And>s'. makeFromURI (root cfg') True s' =
               (Inr \<lparr>bucketName = b, bucket = b\<rparr>, snd (create_bucket b s'))"
    using mk assms(6) by simp
  let ?s1 = "snd (putRepositoryCfg reg cfg None s)"
  let ?s2 = "snd (getRepositoryCfg reg (root cfg) ?s1)"
  let ?s3 = "snd (putRepositoryCfg reg cfg' None ?s2)"
  let ?s4 = "snd (getRepositoryCfg reg (root cfg) ?s3)"
  have a: "putRepositoryCfg reg cfg None s = (Inr (), ?s1)"
    using putRepositoryCfg_then_get(1) [OF assms(1,2,3) v acc mk, of s]
    by (simp add: prod_eq_iff)
  have b: "getRepositoryCfg reg (root cfg) ?s1 = (Inr (Cfg cfg), ?s2)"
    using putRepositoryCfg_then_get(2) [OF assms(1,2,3) v acc mk, of s]
    by (simp add: prod_eq_iff)
  have c: "putRepositoryCfg reg cfg' None ?s2 = (Inr (), ?s3)"
    using putRepositoryCfg_then_get(1) [OF assms(1,2,4) v acc mk', of ?s2]
    by (simp add: prod_eq_iff)
  have d: "getRepositoryCfg reg (root cfg) ?s3 = (Inr (Cfg cfg'), ?s4)"
    using putRepositoryCfg_then_get(2) [OF assms(1,2,4) v acc mk', of ?s2] assms(6)
    by (simp add: prod_eq_iff)
  from a b c d show ?thesis by blast
qed

theorem putRepositoryCfg_round_trip_witness:
  "fst (makeFromURI (root example_cfg) True no_buckets) = Inr test_storage \<and>
   root example_cfg_modified = root example_cfg \<and>
   example_cfg_modified \<noteq> example_cfg \<and>
   (\<exists>s1 s2 s3 s4.
      putRepositoryCfg example_formatters example_cfg None no_buckets = (Inr (), s1) \<and>
      getRepositoryCfg example_formatters ''s3:///test_copy'' s1 = (Inr (Cfg example_cfg), s2) \<and>
      putRepositoryCfg example_formatters example_cfg_modified None s2 = (Inr (), s3) \<and>
      getRepositoryCfg example_formatters ''s3:///test_copy'' s3
        = (Inr (Cfg example_cfg_modified), s4))"
proof -
  have r: "root example_cfg = ''s3:///test_copy''"
    by (simp add: example_cfg_def)
  have o: "fst (makeFromURI (root example_cfg) True no_buckets) = Inr test_storage"
    using makeFromURI_three_slashes [OF valid_test_copy accepted_test_copy, of no_buckets]
    by (simp add: r test_storage_def)
  have e: "root example_cfg_modified = root example_cfg"
    by (simp add: example_cfg_modified_def)
  have n: "example_cfg_modified \<noteq> example_cfg"
    by (simp add: example_cfg_modified_def example_cfg_def)
  from putRepositoryCfg_round_trip [OF example_formatters_cfg example_cfg_round_trip
      example_cfg_modified_round_trip o e] o e n r
  show ?thesis by simp
qed

text \<open>
  Claim C4 as it is written speaks of every configuration. A configuration whose root
  names a path inside a bucket, \<open>s3:///test_copy/repo\<close>, is not stored: the constructor
  takes the whole path for the bucket name, the client refuses it, and both
  \<open>putRepositoryCfg\<close> and \<open>getRepositoryCfg\<close> raise \<open>ParamValidationError\<close>.
\<close>

theorem putRepositoryCfg_nested_root_counterexample:
  "example_yaml_load (example_yaml_dump (Cfg nested_cfg)) = Some (Cfg nested_cfg) \<and>
   putRepositoryCfg example_formatters nested_cfg None empty_store
     = (Inl ParamValidationError, empty_store) \<and>
   getRepositoryCfg example_formatters (root nested_cfg) empty_store
     = (Inl ParamValidationError, empty_store)"
proof -
  have r: "root nested_cfg = ''s3:///test_copy/repo''"
    by (simp add: nested_cfg_def)
  have c: "example_yaml_load (example_yaml_dump (Cfg nested_cfg)) = Some (Cfg nested_cfg)"
    by (simp add: example_yaml_load_def nested_cfg_def split1_def)
  show ?thesis
    using c by (simp add: putRepositoryCfg_def getRepositoryCfg_def r makeFromURI_nested_root)
qed

section \<open>Reading, writing and copying\<close>

text \<open>
  Claim C6. When no writer is registered for the type of the object, \<open>write\<close> raises its
  \<open>RuntimeError\<close> and leaves the store, the record of requests included, as it was; so
  does \<open>read\<close> when no reader is registered for the declared type of the location. When a
  formatter is registered, the method is the call of that formatter on the bucket handle
  of the storage, the location and (for a writer) the object: result, exception and
  store are the formatter's.
\<close>

theorem formatter_dispatch:
  "(getWriteFormatter reg (type_of obj) = None \<longrightarrow>
      S3Storage_write reg self butlerLocation obj s =
        (Inl (RuntimeError ''No write formatter registered''), s)) \<and>
   (getReadFormatter reg (getPythonType butlerLocation) = None \<longrightarrow>
      S3Storage_read reg self butlerLocation s =
        (Inl (RuntimeError ''No read formatter registered''), s)) \<and>
   (getWriteFormatter reg (type_of obj) = Some writeFormatter \<longrightarrow>
      S3Storage_write reg self butlerLocation obj s =
        writeFormatter (bucket self) butlerLocation obj s) \<and>
   (getReadFormatter reg (getPythonType butlerLocation) = Some readFormatter \<longrightarrow>
      S3Storage_read reg self butlerLocation s = readFormatter (bucket self) butlerLocation s)"
  by (simp add: S3Storage_write_def S3Storage_read_def)

theorem formatter_dispatch_witness:
  "S3Storage_write example_formatters test_storage
       \<lparr>pythonType = Some StrType, locationList = [''testname'']\<rparr> (PyStr ''foo'') empty_store
     = (Inl (RuntimeError ''No write formatter registered''), empty_store) \<and>
   S3Storage_read example_formatters test_storage
       \<lparr>pythonType = Some StrType, locationList = [''testname'']\<rparr> empty_store
     = (Inl (RuntimeError ''No read formatter registered''), empty_store) \<and>
   S3Storage_write example_formatters test_storage testname_location
       (MyTestObject (PyStr ''foo'')) empty_store
     = writeMyTestObject example_pickle_dump ''test_copy'' testname_location
         (MyTestObject (PyStr ''foo'')) empty_store \<and>
   S3Storage_read example_formatters test_storage testname_location empty_store
     = readMyTestObject example_pickle_load ''test_copy'' testname_location empty_store"
  using formatter_dispatch [where reg = example_formatters and obj = "PyStr ''foo''"
      and self = test_storage and s = empty_store
      and butlerLocation = "\<lparr>pythonType = Some StrType, locationList = [''testname'']\<rparr>"]
    formatter_dispatch [where reg = example_formatters and obj = "MyTestObject (PyStr ''foo'')"
      and self = test_storage and s = empty_store and butlerLocation = testname_location
      and writeFormatter = "writeMyTestObject example_pickle_dump"
      and readFormatter = "readMyTestObject example_pickle_load"]
  by (simp add: getWriteFormatter_def getReadFormatter_def getPythonType_def
      example_formatters_def registered_def test_storage_def testname_location_def)

text \<open>
  Claim C5, amended. For every type whose registered formatter stores the encoded object
  under the first location and reads it back from there (the formatter of the test suite,
  for any codec that decodes \<open>v\<close> from its encoding), every value \<open>v\<close> of that type and
  distinct keys \<open>A\<close> and \<open>A_copy\<close> in a bucket of the store: after \<open>write\<close> of \<open>v\<close> at \<open>A\<close> and
  \<open>copyFile\<close> from \<open>A\<close> to \<open>A_copy\<close>, \<open>read\<close> at \<open>A_copy\<close> returns \<open>[v]\<close>, and it still
  does after another value is written at \<open>A\<close>.
\<close>

theorem copyFile_independent:
  assumes "writeFormatters reg T = Some (writeMyTestObject pickle_dump)"
    and "readFormatters reg T = Some (readMyTestObject pickle_load)"
    and "type_of v = T" and "type_of v' = T"
    and "pickle_load (pickle_dump v) = Some v"
    and "A \<noteq> A_copy"
    and "buckets s b \<noteq> None"
  shows "\<exists>s1 s2 s3 s4 s5.
     S3Storage_write reg \<lparr>bucketName = b, bucket = b\<rparr>
       \<lparr>pythonType = Some T, locationList = A # ks\<rparr> v s = (Inr (), s1) \<and>
     copyFile \<lparr>bucketName = b, bucket = b\<rparr> A A_copy s1 = (Inr (), s2) \<and>
     S3Storage_read reg \<lparr>bucketName = b, bucket = b\<rparr>
       \<lparr>pythonType = Some T, locationList = A_copy # ks\<rparr> s2 = (Inr (PyList [v]), s3) \<and>
     S3Storage_write reg \<lparr>bucketName = b, bucket = b\<rparr>
       \<lparr>pythonType = Some T, locationList = A # ks\<rparr> v' s3 = (Inr (), s4) \<and>
     S3Storage_read reg \<lparr>bucketName = b, bucket = b\<rparr>
       \<lparr>pythonType = Some T, locationList = A_copy # ks\<rparr> s4 = (Inr (PyList [v]), s5)"
proof -
  let ?st = "\<lparr>bucketName = b, bucket = b\<rparr>"
  let ?locA = "\<lparr>pythonType = Some T, locationList = A # ks\<rparr>"
  let ?locC = "\<lparr>pythonType = Some T, locationList = A_copy # ks\<rparr>"
  have w: "\<And>obj s'. type_of obj = T \<Longrightarrow>
      S3Storage_write reg ?st ?locA obj s' = put_object b A (pickle_dump obj) s'"
    using assms(1)
    by (simp add: S3Storage_write_def getWriteFormatter_def writeMyTestObject_put)
  have r: "\<And>s'. S3Storage_read reg ?st ?locC s' =
      readMyTestObject pickle_load b ?locC s'"
    using assms(2) by (simp add: S3Storage_read_def getReadFormatter_def getPythonType_def)
  let ?s1 = "snd (put_object b A (pickle_dump v) s)"
  let ?s2 = "snd (bucket_copy b A b A_copy ?s1)"
  let ?s3 = "request (DownloadFile b A_copy) ?s2"
  let ?s4 = "snd (put_object b A (pickle_dump v') ?s3)"
  let ?s5 = "request (DownloadFile b A_copy) ?s4"
  have p1: "buckets ?s1 b \<noteq> None" and st1: "stored ?s1 b A = Some (pickle_dump v)"
    using put_object_present [OF assms(7), of A "pickle_dump v"] assms(7) by simp_all
  have a: "S3Storage_write reg ?st ?locA v s = (Inr (), ?s1)"
    using put_object_present(1) [OF assms(7), of A "pickle_dump v"]
    by (simp add: w [OF assms(3)] prod_eq_iff)
  have p2: "buckets ?s2 b \<noteq> None" and st2: "stored ?s2 b A_copy = Some (pickle_dump v)"
    using bucket_copy_present [OF st1, of A_copy] p1 by simp_all
  have b: "copyFile ?st A A_copy ?s1 = (Inr (), ?s2)"
    using bucket_copy_present(1) [OF st1, of A_copy]
    by (simp add: copyFile_def prod_eq_iff)
  have c: "S3Storage_read reg ?st ?locC ?s2 = (Inr (PyList [v]), ?s3)"
    using st2 assms(5) by (simp add: r readMyTestObject_stored)
  have p3: "buckets ?s3 b \<noteq> None"
    using p2 by simp
  have d: "S3Storage_write reg ?st ?locA v' ?s3 = (Inr (), ?s4)"
    using put_object_present(1) [OF p3, of A "pickle_dump v'"]
    by (simp add: w [OF assms(4)] prod_eq_iff)
  have st4: "stored ?s4 b A_copy = Some (pickle_dump v)"
    using put_object_present(2) [OF p3, of A "pickle_dump v'" b A_copy] st2 assms(6)
    by simp
  have e: "S3Storage_read reg ?st ?locC ?s4 = (Inr (PyList [v]), ?s5)"
    using st4 assms(5) by (simp add: r readMyTestObject_stored)
  from a b c d e show ?thesis by blast
qed

theorem copyFile_independent_witness:
  "buckets empty_store ''test_copy'' \<noteq> None \<and>
   example_pickle_load (example_pickle_dump (MyTestObject (PyStr ''foo'')))
     = Some (MyTestObject (PyStr ''foo'')) \<and>
   (\<exists>s1 s2 s3 s4 s5.
     S3Storage_write example_formatters test_storage testname_location
       (MyTestObject (PyStr ''foo'')) empty_store = (Inr (), s1) \<and>
     copyFile test_storage ''testname'' ''testname_copy'' s1 = (Inr (), s2) \<and>
     S3Storage_read example_formatters test_storage
       \<lparr>pythonType = Some MyTestObjectType, locationList = [''testname_copy'']\<rparr> s2
       = (Inr (PyList [MyTestObject (PyStr ''foo'')]), s3) \<and>
     S3Storage_write example_formatters test_storage testname_location
       (MyTestObject (PyStr ''bar'')) s3 = (Inr (), s4) \<and>
     S3Storage_read example_formatters test_storage
       \<lparr>pythonType = Some MyTestObjectType, locationList = [''testname_copy'']\<rparr> s4
       = (Inr (PyList [MyTestObject (PyStr ''foo'')]), s5))"
proof -
  have p: "buckets empty_store ''test_copy'' \<noteq> None"
    by (simp add: empty_store_def)
  have c: "example_pickle_load (example_pickle_dump (MyTestObject (PyStr ''foo'')))
     = Some (MyTestObject (PyStr ''foo''))"
    by (simp add: example_pickle_load_def)
  from copyFile_independent [OF example_formatters_test(2) example_formatters_test(1) _ _ c _ p,
      where v' = "MyTestObject (PyStr ''bar'')" and A = "''testname''"
        and A_copy = "''testname_copy''" and ks = "[]"] p c
  show ?thesis by (simp add: test_storage_def testname_location_def)
qed

text \<open>
  Claim C5 as it is written speaks of every registered type. The formatter that the
  package registers for \<open>RepositoryCfg\<close> reads and writes the fixed key
  \<open>repositoryCfg.yaml\<close> whatever the location says. With \<open>A\<close> that key and \<open>A_copy\<close> the
  key \<open>copy.yaml\<close>: the write stores the configuration under \<open>A\<close>, the copy succeeds and
  \<open>read\<close> at \<open>A_copy\<close> returns the configuration; after a modified configuration is
  written at \<open>A\<close>, \<open>read\<close> at \<open>A_copy\<close> returns the modified one, although the bytes
  under \<open>copy.yaml\<close> are still those of the first.
\<close>

theorem copyFile_cfg_counterexample:
  "fst (S3Storage_write example_formatters test_storage cfg_key_location (Cfg example_cfg)
          empty_store) = Inr () \<and>
   stored cfg_written ''test_copy'' ''repositoryCfg.yaml''
     = Some (example_yaml_dump (Cfg example_cfg)) \<and>
   fst (copyFile test_storage ''repositoryCfg.yaml'' ''copy.yaml'' cfg_written) = Inr () \<and>
   fst (S3Storage_read example_formatters test_storage cfg_copy_location cfg_copied)
     = Inr (Cfg example_cfg) \<and>
   fst (S3Storage_write example_formatters test_storage cfg_key_location
          (Cfg example_cfg_modified) cfg_copied) = Inr () \<and>
   fst (S3Storage_read example_formatters test_storage cfg_copy_location cfg_rewritten)
     = Inr (Cfg example_cfg_modified) \<and>
   stored cfg_rewritten ''test_copy'' ''copy.yaml'' = Some (example_yaml_dump (Cfg example_cfg)) \<and>
   Cfg example_cfg_modified \<noteq> Cfg example_cfg"
proof -
  have p0: "buckets empty_store ''test_copy'' \<noteq> None"
    by (simp add: empty_store_def)
  have w1: "cfg_written =
      snd (put_object ''test_copy'' ''repositoryCfg.yaml'' (example_yaml_dump (Cfg example_cfg))
             empty_store)"
    unfolding cfg_written_def by (simp only: write_cfg_example)
  have a: "fst (S3Storage_write example_formatters test_storage cfg_key_location (Cfg example_cfg)
          empty_store) = Inr ()"
    by (simp only: write_cfg_example put_object_present(1) [OF p0])
  have st1: "stored cfg_written ''test_copy'' ''repositoryCfg.yaml''
      = Some (example_yaml_dump (Cfg example_cfg))"
    unfolding w1 using put_object_present(2) [OF p0] by simp
  have p1: "buckets cfg_written ''test_copy'' \<noteq> None"
    unfolding w1 using put_object_present(3) [OF p0] p0 by simp
  have c2: "cfg_copied =
      snd (bucket_copy ''test_copy'' ''repositoryCfg.yaml'' ''test_copy'' ''copy.yaml'' cfg_written)"
    by (simp add: cfg_copied_def copyFile_def test_storage_def)
  have b: "fst (copyFile test_storage ''repositoryCfg.yaml'' ''copy.yaml'' cfg_written) = Inr ()"
    using bucket_copy_present(1) [OF st1] by (simp add: copyFile_def test_storage_def)
  have st2: "stored cfg_copied ''test_copy'' ''repositoryCfg.yaml''
      = Some (example_yaml_dump (Cfg example_cfg))"
    and st2c: "stored cfg_copied ''test_copy'' ''copy.yaml''
      = Some (example_yaml_dump (Cfg example_cfg))"
    unfolding c2 using bucket_copy_present(2) [OF st1] st1 by simp_all
  have p2: "buckets cfg_copied ''test_copy'' \<noteq> None"
    unfolding c2 using bucket_copy_present(3) [OF st1] p1 by simp
  have c: "fst (S3Storage_read example_formatters test_storage cfg_copy_location cfg_copied)
      = Inr (Cfg example_cfg)"
    by (simp add: cfg_copy_location_def read_cfg_example st2 example_cfg_round_trip
        del: example_yaml_dump.simps)
  have w3: "cfg_rewritten =
      snd (put_object ''test_copy'' ''repositoryCfg.yaml''
             (example_yaml_dump (Cfg example_cfg_modified)) cfg_copied)"
    unfolding cfg_rewritten_def by (simp only: write_cfg_example)
  have d: "fst (S3Storage_write example_formatters test_storage cfg_key_location
          (Cfg example_cfg_modified) cfg_copied) = Inr ()"
    by (simp only: write_cfg_example put_object_present(1) [OF p2])
  have st3: "stored cfg_rewritten ''test_copy'' ''repositoryCfg.yaml''
      = Some (example_yaml_dump (Cfg example_cfg_modified))"
    and st3c: "stored cfg_rewritten ''test_copy'' ''copy.yaml''
      = Some (example_yaml_dump (Cfg example_cfg))"
    unfolding w3 using put_object_present(2) [OF p2] st2c by simp_all
  have e: "fst (S3Storage_read example_formatters test_storage cfg_copy_location cfg_rewritten)
      = Inr (Cfg example_cfg_modified)"
    by (simp add: cfg_copy_location_def read_cfg_example st3 example_cfg_modified_round_trip
        del: example_yaml_dump.simps)
  have n: "Cfg example_cfg_modified \<noteq> Cfg example_cfg"
    by (simp add: example_cfg_modified_def example_cfg_def)
  from a st1 b c d e st3c n show ?thesis by blast
qed

end
